theory Spec2Isabelle
  imports Complex_Main "HOL-Library.Word"
begin

section \<open>JavaScript strings and the process environment\<close>

text \<open>
  A JavaScript string is a sequence of 16-bit code units; a Buffer is a sequence of
  bytes. String literals of the source are written with \<open>js\<close>, which maps every
  character of an ASCII literal to its code unit.
\<close>

type_synonym jsstring = "16 word list"
type_synonym buffer = "8 word list"

definition js :: "string \<Rightarrow> jsstring" where
  "js s = map of_char s"

text \<open>
  \<open>process.env\<close>: a variable is unset (\<open>None\<close>, JavaScript's \<open>undefined\<close>) or
  holds a string. Variable names are the ASCII names of the source.
\<close>

type_synonym process_env = "string \<Rightarrow> jsstring option"

text \<open>
  JavaScript truthiness of a \<open>string | undefined\<close>: \<open>undefined\<close> and the empty
  string are falsy, every other string is truthy. This is what \<open>!v\<close>, \<open>!!v\<close>,
  \<open>v || d\<close> and \<open>if (v)\<close> test in the source.
\<close>

definition truthy :: "jsstring option \<Rightarrow> bool" where
  "truthy v = (case v of None \<Rightarrow> False | Some s \<Rightarrow> s \<noteq> [])"

text \<open>
  \<open>String.prototype.toLowerCase\<close> on the ASCII range: the code units of \<open>A\<close> to
  \<open>Z\<close> move to \<open>a\<close> to \<open>z\<close>. Code units outside ASCII are left as they are:
  the source only compares the result with ASCII literals, and no character outside
  ASCII lower-cases to a letter of those literals.
\<close>

definition lower_unit :: "16 word \<Rightarrow> 16 word" where
  "lower_unit c = (if 0x41 \<le> c \<and> c \<le> 0x5A then c + 0x20 else c)"

definition toLowerCase :: "jsstring \<Rightarrow> jsstring" where
  "toLowerCase s = map lower_unit s"

section \<open>Configuration: environment mode and feature flags\<close>

text \<open>
  Lines 5 to 7 of the configuration module: the mode is read from \<open>NODE_ENV\<close>.
\<close>

definition isProduction :: "process_env \<Rightarrow> bool" where
  "isProduction penv = (penv ''NODE_ENV'' = Some (js ''production''))"

definition isTest :: "process_env \<Rightarrow> bool" where
  "isTest penv = (penv ''NODE_ENV'' = Some (js ''test''))"

definition isDevelopment :: "process_env \<Rightarrow> bool" where
  "isDevelopment penv = (\<not> isProduction penv \<and> \<not> isTest penv)"

text \<open>
  \<open>boolFromEnv\<close>: \<open>v == null\<close> holds for an unset variable only; otherwise the
  lower-cased value is looked up in the list of the four accepted spellings.
\<close>

definition boolFromEnv :: "jsstring option \<Rightarrow> bool \<Rightarrow> bool" where
  "boolFromEnv v fallback =
     (case v of
        None \<Rightarrow> fallback
      | Some s \<Rightarrow> toLowerCase s \<in> set [js ''1'', js ''true'', js ''yes'', js ''on''])"

record features =
  sms :: bool
  tasks :: bool
  push :: bool
  classifier :: bool

text \<open>
  The \<open>features\<close> object built at the start of the schema's transform. \<open>dev\<close> is
  the module's \<open>isDevelopment\<close>, \<open>env\<close> the parsed environment.
\<close>

definition compute_features :: "bool \<Rightarrow> process_env \<Rightarrow> features" where
  "compute_features dev env =
     \<lparr> sms = boolFromEnv (env ''FEATURE_ENABLE_SMS'') (if dev then True else False),
       tasks = boolFromEnv (env ''FEATURE_ENABLE_TASKS'') (if dev then True else False),
       push = boolFromEnv (env ''FEATURE_ENABLE_PUSH'') (if dev then True else False),
       classifier = boolFromEnv (env ''FEATURE_ENABLE_CLASSIFIER'') (if dev then True else False) \<rparr>"

text \<open>
  The four flags, as (environment variable, field of \<open>features\<close>).
\<close>

definition feature_flags :: "(string \<times> (features \<Rightarrow> bool)) list" where
  "feature_flags =
     [(''FEATURE_ENABLE_SMS'', sms), (''FEATURE_ENABLE_TASKS'', tasks),
      (''FEATURE_ENABLE_PUSH'', push), (''FEATURE_ENABLE_CLASSIFIER'', classifier)]"

text \<open>
  Case-insensitive equality with a lower-case ASCII literal, stated without
  \<open>toLowerCase\<close>: the strings have the same length, and position by position the code
  unit is the literal's, or the literal's is a letter \<open>a\<close> to \<open>z\<close> and the code unit
  is its capital.
\<close>

definition same_letter :: "16 word \<Rightarrow> 16 word \<Rightarrow> bool" where
  "same_letter c d = (c = d \<or> (0x61 \<le> d \<and> d \<le> 0x7A \<and> c + 0x20 = d))"

definition ci_equal :: "jsstring \<Rightarrow> jsstring \<Rightarrow> bool" where
  "ci_equal v lit = list_all2 same_letter v lit"

definition truthy_spelling :: "jsstring \<Rightarrow> bool" where
  "truthy_spelling v =
     (ci_equal v (js ''1'') \<or> ci_equal v (js ''true'') \<or> ci_equal v (js ''yes'') \<or> ci_equal v (js ''on''))"

subsection \<open>Feature flags\<close>

lemma lower_unit_eq_iff:
  "\<not> (0x41 \<le> d \<and> d \<le> 0x5A) \<Longrightarrow> lower_unit c = d \<longleftrightarrow> same_letter c d"
  unfolding lower_unit_def same_letter_def
  by (cases "0x41 \<le> c \<and> c \<le> 0x5A") (auto; unat_arith)+

lemma toLowerCase_eq_iff:
  "list_all (\<lambda>d. \<not> (0x41 \<le> d \<and> d \<le> 0x5A)) lit \<Longrightarrow> toLowerCase s = lit \<longleftrightarrow> ci_equal s lit"
proof (induction s arbitrary: lit)
  case Nil
  then show ?case by (auto simp add: toLowerCase_def ci_equal_def)
next
  case (Cons c s)
  show ?case
  proof (cases lit)
    case Nil
    then show ?thesis by (simp add: toLowerCase_def ci_equal_def)
  next
    case (Cons d ds)
    with Cons.prems have d: "\<not> (0x41 \<le> d \<and> d \<le> 0x5A)"
      and ds: "list_all (\<lambda>d. \<not> (0x41 \<le> d \<and> d \<le> 0x5A)) ds"
      by simp_all
    from Cons.IH [OF ds] lower_unit_eq_iff [OF d, of c] Cons show ?thesis
      by (simp add: toLowerCase_def ci_equal_def)
  qed
qed

lemma boolFromEnv_Some: "boolFromEnv (Some v) fallback = truthy_spelling v"
  by (simp add: boolFromEnv_def truthy_spelling_def toLowerCase_eq_iff [symmetric] js_def)

lemma boolFromEnv_None: "boolFromEnv None fallback = fallback"
  by (simp add: boolFromEnv_def)

text \<open>
  Claim C10. For each of the four feature flags: when the variable is set to \<open>v\<close>, the
  feature is enabled if and only if \<open>v\<close> is, up to the case of its letters, one of
  \<open>1\<close>, \<open>true\<close>, \<open>yes\<close>, \<open>on\<close> (so every other set value disables it); when
  the variable is unset, the feature is disabled in production (\<open>NODE_ENV\<close> is
  \<open>production\<close>) and in test (\<open>NODE_ENV\<close> is \<open>test\<close>), and enabled in
  development, which is every other value of \<open>NODE_ENV\<close> and \<open>NODE_ENV\<close> unset.
\<close>

theorem feature_flag_semantics:
  assumes "(name, field) \<in> set feature_flags"
  shows "(env name = Some v \<longrightarrow>
            field (compute_features (isDevelopment penv) env) = truthy_spelling v) \<and>
         (env name = None \<longrightarrow>
            field (compute_features (isDevelopment penv) env)
              = (penv ''NODE_ENV'' \<noteq> Some (js ''production'') \<and>
                 penv ''NODE_ENV'' \<noteq> Some (js ''test'')))"
  using assms
  by (auto simp add: feature_flags_def compute_features_def boolFromEnv_Some
        boolFromEnv_None isDevelopment_def isProduction_def isTest_def)

theorem feature_flag_semantics_witness:
  "(''FEATURE_ENABLE_SMS'', sms) \<in> set feature_flags \<and>
   sms (compute_features (isDevelopment (\<lambda>n. None))
          ((\<lambda>n. None)(''FEATURE_ENABLE_SMS'' := Some (js ''Yes'')))) = True \<and>
   sms (compute_features (isDevelopment (\<lambda>n. None))
          ((\<lambda>n. None)(''FEATURE_ENABLE_SMS'' := Some (js ''enabled'')))) = False \<and>
   sms (compute_features (isDevelopment (\<lambda>n. None)) (\<lambda>n. None)) = True \<and>
   sms (compute_features (isDevelopment ((\<lambda>n. None)(''NODE_ENV'' := Some (js ''staging''))))
          (\<lambda>n. None)) = True \<and>
   sms (compute_features (isDevelopment ((\<lambda>n. None)(''NODE_ENV'' := Some (js ''production''))))
          (\<lambda>n. None)) = False \<and>
   sms (compute_features (isDevelopment ((\<lambda>n. None)(''NODE_ENV'' := Some (js ''test''))))
          (\<lambda>n. None)) = False \<and>
   sms (compute_features (isDevelopment ((\<lambda>n. None)(''NODE_ENV'' := Some (js ''test''))))
          ((\<lambda>n. None)(''FEATURE_ENABLE_SMS'' := Some (js ''Yes'')))) = True"
proof -
  have m: "(''FEATURE_ENABLE_SMS'', sms) \<in> set feature_flags"
    by (simp add: feature_flags_def)
  have y: "truthy_spelling (js ''Yes'')"
    by (simp add: truthy_spelling_def ci_equal_def same_letter_def js_def)
  have n: "\<not> truthy_spelling (js ''enabled'')"
    by (simp add: truthy_spelling_def ci_equal_def same_letter_def js_def)
  show ?thesis
    using m y n
      feature_flag_semantics [OF m, of "(\<lambda>n. None)(''FEATURE_ENABLE_SMS'' := Some (js ''Yes''))" "js ''Yes''" "\<lambda>n. None"]
      feature_flag_semantics [OF m, of "(\<lambda>n. None)(''FEATURE_ENABLE_SMS'' := Some (js ''enabled''))" "js ''enabled''" "\<lambda>n. None"]
      feature_flag_semantics [OF m, of "\<lambda>n. None" "[]" "\<lambda>n. None"]
      feature_flag_semantics [OF m, of "\<lambda>n. None" "[]" "(\<lambda>n. None)(''NODE_ENV'' := Some (js ''staging''))"]
      feature_flag_semantics [OF m, of "\<lambda>n. None" "[]" "(\<lambda>n. None)(''NODE_ENV'' := Some (js ''production''))"]
      feature_flag_semantics [OF m, of "\<lambda>n. None" "[]" "(\<lambda>n. None)(''NODE_ENV'' := Some (js ''test''))"]
      feature_flag_semantics [OF m, of "(\<lambda>n. None)(''FEATURE_ENABLE_SMS'' := Some (js ''Yes''))" "js ''Yes''" "(\<lambda>n. None)(''NODE_ENV'' := Some (js ''test''))"]
    by (simp add: js_def)
qed

section \<open>Buffers: base64\<close>

text \<open>
  \<open>buf.toString('base64')\<close>: the standard alphabet, three bytes to four characters by
  shifting and masking, with \<open>=\<close> padding.
\<close>

definition b64_code :: "nat \<Rightarrow> nat" where
  "b64_code n =
     (if n < 26 then 0x41 + n
      else if n < 52 then 0x61 + (n - 26)
      else if n < 62 then 0x30 + (n - 52)
      else if n = 62 then 0x2B else 0x2F)"

definition b64_char :: "nat \<Rightarrow> 16 word" where
  "b64_char n = of_nat (b64_code n)"

fun base64_encode :: "buffer \<Rightarrow> jsstring" where
  "base64_encode (a # b # c # rest) =
     b64_char (unat a div 4) # b64_char (unat a mod 4 * 16 + unat b div 16) #
     b64_char (unat b mod 16 * 4 + unat c div 64) # b64_char (unat c mod 64) #
     base64_encode rest"
| "base64_encode [a, b] =
     [b64_char (unat a div 4), b64_char (unat a mod 4 * 16 + unat b div 16),
      b64_char (unat b mod 16 * 4), 0x3D]"
| "base64_encode [a] =
     [b64_char (unat a div 4), b64_char (unat a mod 4 * 16), 0x3D, 0x3D]"
| "base64_encode [] = []"

text \<open>
  \<open>Buffer.from(s, 'base64')\<close> is lenient. Every code unit is cast to a byte; decoding
  stops at the first \<open>=\<close>; characters outside the alphabet are skipped; both the
  standard and the URL-safe alphabet are accepted; a trailing group of two or three
  characters gives one or two bytes, a single trailing character gives none.
\<close>

definition unbase64 :: "nat \<Rightarrow> nat option" where
  "unbase64 c =
     (if 0x41 \<le> c \<and> c \<le> 0x5A then Some (c - 0x41)
      else if 0x61 \<le> c \<and> c \<le> 0x7A then Some (c - 0x61 + 26)
      else if 0x30 \<le> c \<and> c \<le> 0x39 then Some (c - 0x30 + 52)
      else if c = 0x2B \<or> c = 0x2D then Some 62
      else if c = 0x2F \<or> c = 0x5F then Some 63
      else None)"

definition b64_sextets :: "jsstring \<Rightarrow> nat list" where
  "b64_sextets s =
     List.map_filter unbase64 (takeWhile (\<lambda>c. c \<noteq> 0x3D) (map (\<lambda>u. unat u mod 256) s))"

fun b64_bytes :: "nat list \<Rightarrow> buffer" where
  "b64_bytes (p # q # r # s # rest) =
     of_nat (p * 4 + q div 16) # of_nat (q mod 16 * 16 + r div 4) # of_nat (r mod 4 * 64 + s) #
     b64_bytes rest"
| "b64_bytes [p, q, r] = [of_nat (p * 4 + q div 16), of_nat (q mod 16 * 16 + r div 4)]"
| "b64_bytes [p, q] = [of_nat (p * 4 + q div 16)]"
| "b64_bytes [p] = []"
| "b64_bytes [] = []"

definition base64_decode :: "jsstring \<Rightarrow> buffer" where
  "base64_decode s = b64_bytes (b64_sextets s)"


subsection \<open>Decoding inverts encoding\<close>

lemma b64_code_bound: "n < 64 \<Longrightarrow> b64_code n < 128"
  by (auto simp add: b64_code_def)

lemma unat_b64_char: "n < 64 \<Longrightarrow> unat (b64_char n) mod 256 = b64_code n"
  using b64_code_bound [of n] by (simp add: b64_char_def unat_of_nat)

lemma unbase64_code: "n < 64 \<Longrightarrow> unbase64 (b64_code n) = Some n"
  by (auto simp add: unbase64_def b64_code_def)

lemma b64_code_not_pad: "n < 64 \<Longrightarrow> b64_code n \<noteq> 0x3D"
  by (auto simp add: b64_code_def)

lemma b64_sextets_char:
  "n < 64 \<Longrightarrow> b64_sextets (b64_char n # s) = n # b64_sextets s"
  by (simp add: b64_sextets_def unat_b64_char b64_code_not_pad unbase64_code List.map_filter_simps)

lemma b64_sextets_pad: "b64_sextets (0x3D # s) = []"
  by (simp add: b64_sextets_def List.map_filter_simps)

lemma b64_sextets_Nil: "b64_sextets [] = []"
  by (simp add: b64_sextets_def List.map_filter_simps)

lemma unat_byte_less: "unat (a :: 8 word) < 256"
  using unsigned_less [of a, where ?'a = nat] by simp

lemma of_nat_unat_byte: "(of_nat (unat (a::8 word)) :: 8 word) = a"
  by simp

lemma sextet_bounds:
  "a < 256 \<Longrightarrow> a div 4 < (64::nat)"
  "b < 256 \<Longrightarrow> a mod 4 * 16 + b div 16 < (64::nat)"
  "c < 256 \<Longrightarrow> b mod 16 * 4 + c div 64 < (64::nat)"
  "c mod 64 < (64::nat)"
  "b mod 16 * 4 < (64::nat)"
  "a mod 4 * 16 < (64::nat)"
  by (simp_all add: div_mult2_eq [symmetric])

lemma sextet_join:
  "b < 256 \<Longrightarrow> a div 4 * 4 + (a mod 4 * 16 + b div 16) div 16 = (a::nat)"
  "b < 256 \<Longrightarrow> c < 256 \<Longrightarrow>
     (a mod 4 * 16 + b div 16) mod 16 * 16 + (b mod 16 * 4 + c div 64) div 4 = (b::nat)"
  "c < 256 \<Longrightarrow> (b mod 16 * 4 + c div 64) mod 4 * 64 + c mod 64 = (c::nat)"
  "b < 256 \<Longrightarrow> (a mod 4 * 16 + b div 16) mod 16 * 16 + (b mod 16 * 4) div 4 = (b::nat)"
  "a div 4 * 4 + (a mod 4 * 16) div 16 = (a::nat)"
  by (simp_all add: div_mult2_eq [symmetric])

lemma b64_bytes_group:
  "b < 256 \<Longrightarrow> c < 256 \<Longrightarrow>
   b64_bytes (a div 4 # (a mod 4 * 16 + b div 16) # (b mod 16 * 4 + c div 64) # c mod 64 # rest)
     = of_nat a # of_nat b # of_nat c # b64_bytes rest"
  by (simp only: b64_bytes.simps sextet_join)

lemma b64_bytes_two:
  "b < 256 \<Longrightarrow>
   b64_bytes [a div 4, a mod 4 * 16 + b div 16, b mod 16 * 4] = [of_nat a, of_nat b]"
  by (simp only: b64_bytes.simps sextet_join)

lemma b64_bytes_one: "b64_bytes [a div 4, a mod 4 * 16] = [of_nat a]"
  using sextet_join(5) [of a] by (simp only: b64_bytes.simps div_0 add_0_right)

lemma base64_roundtrip: "base64_decode (base64_encode bs) = bs"
proof (induction bs rule: base64_encode.induct)
  case (1 a b c rest)
  have "b64_sextets (base64_encode (a # b # c # rest)) =
        unat a div 4 # (unat a mod 4 * 16 + unat b div 16) #
        (unat b mod 16 * 4 + unat c div 64) # unat c mod 64 # b64_sextets (base64_encode rest)"
    by (simp only: base64_encode.simps b64_sextets_char sextet_bounds unat_byte_less)
  with 1 show ?case
    by (simp only: base64_decode_def b64_bytes_group unat_byte_less of_nat_unat_byte)
next
  case (2 a b)
  have "b64_sextets (base64_encode [a, b]) =
        [unat a div 4, unat a mod 4 * 16 + unat b div 16, unat b mod 16 * 4]"
    by (simp only: base64_encode.simps b64_sextets_char b64_sextets_pad sextet_bounds unat_byte_less)
  then show ?case
    by (simp only: base64_decode_def b64_bytes_two unat_byte_less of_nat_unat_byte)
next
  case (3 a)
  have "b64_sextets (base64_encode [a]) = [unat a div 4, unat a mod 4 * 16]"
    by (simp only: base64_encode.simps b64_sextets_char b64_sextets_pad sextet_bounds unat_byte_less)
  then show ?case
    by (simp only: base64_decode_def b64_bytes_one of_nat_unat_byte)
next
  case 4
  show ?case by (simp add: base64_decode_def b64_sextets_Nil)
qed

lemma length_base64_encode: "length (base64_encode bs) = 4 * ((length bs + 2) div 3)"
  by (induction bs rule: base64_encode.induct) (simp_all, arith)

section \<open>Strings and buffers: UTF-8\<close>

text \<open>
  Writing a string into a buffer as UTF-8 (\<open>Buffer.from(s, 'utf8')\<close>,
  \<open>cipher.update(s, 'utf8')\<close>, \<open>Buffer.byteLength(s, 'utf8')\<close>): the code units are
  read as UTF-16, a surrogate pair is one code point, and a surrogate that is not part
  of a pair is replaced by U+FFFD.
\<close>

definition is_high :: "16 word \<Rightarrow> bool" where
  "is_high u = (0xD800 \<le> u \<and> u \<le> 0xDBFF)"

definition is_low :: "16 word \<Rightarrow> bool" where
  "is_low u = (0xDC00 \<le> u \<and> u \<le> 0xDFFF)"

fun code_points :: "jsstring \<Rightarrow> nat list" where
  "code_points (u # v # vs) =
     (if is_high u \<and> is_low v
      then (0x10000 + (unat u - 0xD800) * 1024 + (unat v - 0xDC00)) # code_points vs
      else (if is_high u \<or> is_low u then 0xFFFD else unat u) # code_points (v # vs))"
| "code_points [u] = [if is_high u \<or> is_low u then 0xFFFD else unat u]"
| "code_points [] = []"

definition utf8_seq :: "nat \<Rightarrow> nat list" where
  "utf8_seq cp =
     (if cp < 0x80 then [cp]
      else if cp < 0x800 then [0xC0 + cp div 64, 0x80 + cp mod 64]
      else if cp < 0x10000 then
        [0xE0 + cp div 4096, 0x80 + cp div 64 mod 64, 0x80 + cp mod 64]
      else
        [0xF0 + cp div 262144, 0x80 + cp div 4096 mod 64,
         0x80 + cp div 64 mod 64, 0x80 + cp mod 64])"

definition utf8_encode :: "jsstring \<Rightarrow> buffer" where
  "utf8_encode s = map of_nat (concat (map utf8_seq (code_points s)))"

text \<open>
  \<open>buf.toString('utf8')\<close>: the decoder of the WHATWG Encoding standard. A byte that
  cannot start or continue a sequence ends the sequence read so far, which becomes one
  U+FFFD, and is then read again as the start of a new sequence. The byte order mark
  is kept.
\<close>

definition is_cont :: "nat \<Rightarrow> bool" where
  "is_cont c = (0x80 \<le> c \<and> c \<le> 0xBF)"

definition second_ok :: "nat \<Rightarrow> nat \<Rightarrow> bool" where
  "second_ok b c =
     ((if b = 0xE0 then 0xA0 else if b = 0xF0 then 0x90 else 0x80) \<le> c \<and>
      c \<le> (if b = 0xED then 0x9F else if b = 0xF4 then 0x8F else 0xBF))"

fun utf8_code_points :: "nat list \<Rightarrow> nat list" where
  "utf8_code_points [] = []"
| "utf8_code_points (b # bs) =
     (if b < 0x80 then b # utf8_code_points bs
      else if 0xC2 \<le> b \<and> b \<le> 0xDF then
        (case bs of
           [] \<Rightarrow> [0xFFFD]
         | c1 # r1 \<Rightarrow>
             if is_cont c1 then ((b - 0xC0) * 64 + (c1 - 0x80)) # utf8_code_points r1
             else 0xFFFD # utf8_code_points bs)
      else if 0xE0 \<le> b \<and> b \<le> 0xEF then
        (case bs of
           [] \<Rightarrow> [0xFFFD]
         | c1 # r1 \<Rightarrow>
             if second_ok b c1 then
               (case r1 of
                  [] \<Rightarrow> [0xFFFD]
                | c2 # r2 \<Rightarrow>
                    if is_cont c2
                    then (((b - 0xE0) * 64 + (c1 - 0x80)) * 64 + (c2 - 0x80)) # utf8_code_points r2
                    else 0xFFFD # utf8_code_points r1)
             else 0xFFFD # utf8_code_points bs)
      else if 0xF0 \<le> b \<and> b \<le> 0xF4 then
        (case bs of
           [] \<Rightarrow> [0xFFFD]
         | c1 # r1 \<Rightarrow>
             if second_ok b c1 then
               (case r1 of
                  [] \<Rightarrow> [0xFFFD]
                | c2 # r2 \<Rightarrow>
                    if is_cont c2 then
                      (case r2 of
                         [] \<Rightarrow> [0xFFFD]
                       | c3 # r3 \<Rightarrow>
                           if is_cont c3
                           then ((((b - 0xF0) * 64 + (c1 - 0x80)) * 64 + (c2 - 0x80)) * 64 + (c3 - 0x80))
                                # utf8_code_points r3
                           else 0xFFFD # utf8_code_points r2)
                    else 0xFFFD # utf8_code_points r1)
             else 0xFFFD # utf8_code_points bs)
      else 0xFFFD # utf8_code_points bs)"

definition utf16_units :: "nat \<Rightarrow> jsstring" where
  "utf16_units cp =
     (if cp < 0x10000 then [of_nat cp]
      else [of_nat (0xD800 + (cp - 0x10000) div 1024), of_nat (0xDC00 + (cp - 0x10000) mod 1024)])"

definition utf8_decode :: "buffer \<Rightarrow> jsstring" where
  "utf8_decode bs = concat (map utf16_units (utf8_code_points (map unat bs)))"



subsection \<open>Decoding inverts encoding on well-formed strings\<close>

definition scalar :: "nat \<Rightarrow> bool" where
  "scalar cp = (cp < 0x110000 \<and> \<not> (0xD800 \<le> cp \<and> cp \<le> 0xDFFF))"

lemma unat_of_nat_byte: "n < 256 \<Longrightarrow> unat (of_nat n :: 8 word) = n"
  by (simp add: unat_of_nat)

lemma of_nat_unat_unit: "(of_nat (unat (u::16 word)) :: 16 word) = u"
  by simp

lemma unat_unit_less: "unat (u :: 16 word) < 65536"
  using unsigned_less [of u, where ?'a = nat] by simp

lemma div_4096: "(n::nat) div 4096 = n div 64 div 64"
  by (simp add: div_mult2_eq [symmetric])

lemma div_262144: "(n::nat) div 262144 = n div 64 div 64 div 64"
  by (simp add: div_mult2_eq [symmetric])

lemma utf8_decode_1:
  "cp < 0x80 \<Longrightarrow> utf8_code_points (utf8_seq cp @ rest) = cp # utf8_code_points rest"
  by (simp add: utf8_seq_def)

lemma utf8_decode_2:
  assumes "0x80 \<le> cp" "cp < 0x800"
  shows "utf8_code_points (utf8_seq cp @ rest) = cp # utf8_code_points rest"
proof -
  have "2 \<le> cp div 64" "cp div 64 \<le> 31"
    using assms by arith+
  then show ?thesis
    using assms by (simp add: utf8_seq_def is_cont_def)
qed

lemma utf8_decode_3:
  assumes "0x800 \<le> cp" "cp < 0x10000" "\<not> (0xD800 \<le> cp \<and> cp \<le> 0xDFFF)"
  shows "utf8_code_points (utf8_seq cp @ rest) = cp # utf8_code_points rest"
proof -
  define c where "c = cp mod 64"
  define x where "x = cp div 64"
  define b where "b = x mod 64"
  define a where "a = x div 64"
  have e: "cp = 64 * x + c" "c < 64" "x = 64 * a + b" "b < 64"
    by (simp_all add: c_def x_def b_def a_def)
  have j: "(a * 64 + b) * 64 + c = cp"
    by (simp add: e(1) e(3))
  have r: "a \<le> 15" "a = 0 \<longrightarrow> 32 \<le> b" "a = 13 \<longrightarrow> b \<le> 31"
    using assms e by linarith+
  have s: "utf8_seq cp = [0xE0 + a, 0x80 + b, 0x80 + c]"
    using assms by (simp add: utf8_seq_def div_4096 a_def b_def c_def x_def)
  show ?thesis
    unfolding s using r j e(2,4)
    by (simp add: is_cont_def second_ok_def)
qed

lemma utf8_decode_4:
  assumes "0x10000 \<le> cp" "cp < 0x110000"
  shows "utf8_code_points (utf8_seq cp @ rest) = cp # utf8_code_points rest"
proof -
  define d where "d = cp mod 64"
  define x where "x = cp div 64"
  define c where "c = x mod 64"
  define y where "y = x div 64"
  define b where "b = y mod 64"
  define a where "a = y div 64"
  have e: "cp = 64 * x + d" "d < 64" "x = 64 * y + c" "c < 64" "y = 64 * a + b" "b < 64"
    by (simp_all add: d_def x_def c_def y_def b_def a_def)
  have j: "((a * 64 + b) * 64 + c) * 64 + d = cp"
    by (simp add: e(1) e(3) e(5))
  have r: "a \<le> 4" "a = 0 \<longrightarrow> 16 \<le> b" "a = 4 \<longrightarrow> b \<le> 15"
    using assms e by linarith+
  have s: "utf8_seq cp = [0xF0 + a, 0x80 + b, 0x80 + c, 0x80 + d]"
    using assms
    by (simp add: utf8_seq_def div_4096 div_262144 a_def b_def c_def d_def x_def y_def)
  show ?thesis
    unfolding s using r j e(2,4,6)
    by (simp add: is_cont_def second_ok_def)
qed

lemma utf8_decode_seq:
  "scalar cp \<Longrightarrow> utf8_code_points (utf8_seq cp @ rest) = cp # utf8_code_points rest"
  using utf8_decode_1 [of cp rest] utf8_decode_2 [of cp rest] utf8_decode_3 [of cp rest]
    utf8_decode_4 [of cp rest]
  unfolding scalar_def by linarith


text \<open>
  A string is well formed when it has no surrogate outside a pair;
  \<open>toWellFormed\<close> replaces each such surrogate by U+FFFD.
\<close>

fun well_formed :: "jsstring \<Rightarrow> bool" where
  "well_formed (u # v # vs) =
     (if is_high u then is_low v \<and> well_formed vs
      else \<not> is_low u \<and> well_formed (v # vs))"
| "well_formed [u] = (\<not> is_high u \<and> \<not> is_low u)"
| "well_formed [] = True"

definition toWellFormed :: "jsstring \<Rightarrow> jsstring" where
  "toWellFormed s = concat (map utf16_units (code_points s))"

lemma is_high_unat: "is_high u \<longleftrightarrow> 0xD800 \<le> unat u \<and> unat u \<le> 0xDBFF"
  by (simp add: is_high_def word_le_nat_alt)

lemma is_low_unat: "is_low u \<longleftrightarrow> 0xDC00 \<le> unat u \<and> unat u \<le> 0xDFFF"
  by (simp add: is_low_def word_le_nat_alt)

lemma pair_scalar:
  assumes "is_high u" "is_low v"
  shows "scalar (0x10000 + (unat u - 0xD800) * 1024 + (unat v - 0xDC00))"
  using assms unfolding is_high_unat is_low_unat scalar_def by linarith

lemma unit_scalar: "scalar (if is_high u \<or> is_low u then 0xFFFD else unat u)"
  using unat_unit_less [of u] unfolding is_high_unat is_low_unat scalar_def
  by (simp; linarith)

lemma code_points_scalar: "list_all scalar (code_points s)"
  by (induction s rule: code_points.induct) (simp_all add: pair_scalar unit_scalar del: One_nat_def)

lemma utf8_code_points_concat:
  "list_all scalar cps \<Longrightarrow> utf8_code_points (concat (map utf8_seq cps)) = cps"
proof (induction cps)
  case Nil
  show ?case by simp
next
  case (Cons cp cps)
  then show ?case
    using utf8_decode_seq [of cp "concat (map utf8_seq cps)"] by simp
qed

lemma utf8_seq_bytes: "scalar cp \<Longrightarrow> list_all (\<lambda>b. b < 256) (utf8_seq cp)"
  unfolding scalar_def utf8_seq_def
  by (simp add: div_4096 div_262144) linarith

lemma map_unat_of_nat:
  "list_all (\<lambda>b. b < 256) bs \<Longrightarrow> map unat (map of_nat bs :: buffer) = bs"
  by (induction bs) (simp_all add: unat_of_nat_byte)

lemma concat_bytes:
  "list_all scalar cps \<Longrightarrow> list_all (\<lambda>b. b < 256) (concat (map utf8_seq cps))"
  by (induction cps) (simp_all add: utf8_seq_bytes)

lemma utf8_decode_encode: "utf8_decode (utf8_encode s) = toWellFormed s"
  unfolding utf8_decode_def utf8_encode_def toWellFormed_def
  by (simp only: map_unat_of_nat concat_bytes code_points_scalar utf8_code_points_concat)

lemma utf16_units_pair:
  assumes "is_high u" "is_low v"
  shows "utf16_units (0x10000 + (unat u - 0xD800) * 1024 + (unat v - 0xDC00)) = [u, v]"
proof -
  define h where "h = unat u - 0xD800"
  define l where "l = unat v - 0xDC00"
  have b: "l < 1024" "0xD800 + h = unat u" "0xDC00 + l = unat v"
    using assms unfolding is_high_unat is_low_unat h_def l_def by linarith+
  have d: "(h * 1024 + l) div 1024 = h" "(h * 1024 + l) mod 1024 = l"
    using b(1) by simp_all
  have "utf16_units (0x10000 + h * 1024 + l) = [of_nat (0xD800 + h), of_nat (0xDC00 + l)]"
    unfolding utf16_units_def using d by (simp add: add.assoc del: of_nat_add)
  then show ?thesis
    unfolding h_def [symmetric] l_def [symmetric] by (simp only: b of_nat_unat_unit)
qed


lemma utf16_units_unit: "utf16_units (unat u) = [u]"
  using unat_unit_less [of u] by (simp add: utf16_units_def)

lemma toWellFormed_id: "well_formed s \<Longrightarrow> toWellFormed s = s"
proof (induction s rule: code_points.induct)
  case (1 u v vs)
  show ?case
  proof (cases "is_high u")
    case True
    with 1 show ?thesis
      by (simp add: toWellFormed_def utf16_units_pair)
  next
    case False
    with 1 show ?thesis
      by (simp add: toWellFormed_def utf16_units_unit)
  qed
next
  case (2 u)
  then show ?case by (simp add: toWellFormed_def utf16_units_unit)
next
  case 3
  show ?case by (simp add: toWellFormed_def)
qed

lemma utf8_roundtrip: "well_formed s \<Longrightarrow> utf8_decode (utf8_encode s) = s"
  by (simp add: utf8_decode_encode toWellFormed_id)

lemma lone_surrogate_example: "utf8_decode (utf8_encode [0xD800]) = [0xFFFD]"
  by (simp add: utf8_decode_encode toWellFormed_def is_high_def utf16_units_def)

section \<open>JSON\<close>

text \<open>
  JSON values as \<open>JSON.parse\<close> builds them. A number keeps the text of its token.
  The members of an object are kept in the order of the text.
\<close>

datatype json =
    JNull
  | JBool bool
  | JNumber jsstring
  | JString jsstring
  | JArray "json list"
  | JObject "(jsstring \<times> json) list"

text \<open>
  \<open>JSON.stringify\<close> of a string (QuoteJSONString): the quote, the backslash and the
  control characters are escaped, a surrogate outside a pair is written as a
  \<open>\u\<close> escape with lower-case hexadecimal digits, every other code unit stands for
  itself.
\<close>

definition hex_char :: "nat \<Rightarrow> 16 word" where
  "hex_char n = of_nat (if n < 10 then 0x30 + n else 0x61 + (n - 10))"

definition unicode_escape :: "16 word \<Rightarrow> jsstring" where
  "unicode_escape u =
     [0x5C, 0x75, hex_char (unat u div 4096), hex_char (unat u div 256 mod 16),
      hex_char (unat u div 16 mod 16), hex_char (unat u mod 16)]"

definition json_escape_unit :: "16 word \<Rightarrow> jsstring" where
  "json_escape_unit u =
     (if u = 0x08 then [0x5C, 0x62]
      else if u = 0x09 then [0x5C, 0x74]
      else if u = 0x0A then [0x5C, 0x6E]
      else if u = 0x0C then [0x5C, 0x66]
      else if u = 0x0D then [0x5C, 0x72]
      else if u < 0x20 then unicode_escape u
      else if u = 0x22 then [0x5C, 0x22]
      else if u = 0x5C then [0x5C, 0x5C]
      else [u])"

fun json_quote_units :: "jsstring \<Rightarrow> jsstring" where
  "json_quote_units (u # v # vs) =
     (if is_high u \<and> is_low v then u # v # json_quote_units vs
      else (if is_high u \<or> is_low u then unicode_escape u else json_escape_unit u)
           @ json_quote_units (v # vs))"
| "json_quote_units [u] = (if is_high u \<or> is_low u then unicode_escape u else json_escape_unit u)"
| "json_quote_units [] = []"

definition json_quote :: "jsstring \<Rightarrow> jsstring" where
  "json_quote s = 0x22 # json_quote_units s @ [0x22]"

text \<open>
  \<open>JSON.parse\<close>: the JSON grammar, on code units. The recursion into arrays and
  objects is bounded by a counter that \<open>JSON_parse\<close> starts at twice the length of
  the text plus two, more than any text can use: every second call consumes a
  character.
\<close>

definition is_ws :: "16 word \<Rightarrow> bool" where
  "is_ws c = (c = 0x20 \<or> c = 0x09 \<or> c = 0x0A \<or> c = 0x0D)"

definition skip_ws :: "jsstring \<Rightarrow> jsstring" where
  "skip_ws cs = dropWhile is_ws cs"

definition hex_digit :: "16 word \<Rightarrow> nat option" where
  "hex_digit c =
     (let n = unat c
      in if 0x30 \<le> n \<and> n \<le> 0x39 then Some (n - 0x30)
         else if 0x61 \<le> n \<and> n \<le> 0x66 then Some (n - 0x61 + 10)
         else if 0x41 \<le> n \<and> n \<le> 0x46 then Some (n - 0x41 + 10)
         else None)"

definition hex4 :: "16 word \<Rightarrow> 16 word \<Rightarrow> 16 word \<Rightarrow> 16 word \<Rightarrow> 16 word option" where
  "hex4 a b c d =
     (case (hex_digit a, hex_digit b, hex_digit c, hex_digit d) of
        (Some p, Some q, Some r, Some s) \<Rightarrow> Some (of_nat (((p * 16 + q) * 16 + r) * 16 + s))
      | _ \<Rightarrow> None)"

definition simple_escape :: "16 word \<Rightarrow> 16 word option" where
  "simple_escape e =
     (if e = 0x22 then Some 0x22
      else if e = 0x5C then Some 0x5C
      else if e = 0x2F then Some 0x2F
      else if e = 0x62 then Some 0x08
      else if e = 0x66 then Some 0x0C
      else if e = 0x6E then Some 0x0A
      else if e = 0x72 then Some 0x0D
      else if e = 0x74 then Some 0x09
      else None)"

definition cons_unit :: "16 word \<Rightarrow> (jsstring \<times> jsstring) option \<Rightarrow> (jsstring \<times> jsstring) option" where
  "cons_unit u r = map_option (\<lambda>(s, rest). (u # s, rest)) r"

fun parse_string_body :: "jsstring \<Rightarrow> (jsstring \<times> jsstring) option" where
  "parse_string_body [] = None"
| "parse_string_body (c # cs) =
     (if c = 0x22 then Some ([], cs)
      else if c = 0x5C then
        (case cs of
           [] \<Rightarrow> None
         | e # es \<Rightarrow>
             if e = 0x75 then
               (case es of
                  h1 # h2 # h3 # h4 # r \<Rightarrow>
                    (case hex4 h1 h2 h3 h4 of
                       None \<Rightarrow> None
                     | Some u \<Rightarrow> cons_unit u (parse_string_body r))
                | _ \<Rightarrow> None)
             else
               (case simple_escape e of
                  None \<Rightarrow> None
                | Some u \<Rightarrow> cons_unit u (parse_string_body es)))
      else if c < 0x20 then None
      else cons_unit c (parse_string_body cs))"

definition is_digit :: "16 word \<Rightarrow> bool" where
  "is_digit c = (0x30 \<le> c \<and> c \<le> 0x39)"

definition parse_exponent :: "jsstring \<Rightarrow> jsstring \<Rightarrow> (jsstring \<times> jsstring) option" where
  "parse_exponent acc r =
     (case r of
        [] \<Rightarrow> Some (acc, [])
      | c # r1 \<Rightarrow>
          if c = 0x65 \<or> c = 0x45 then
            (let sg = (case r1 of [] \<Rightarrow> [] | s # _ \<Rightarrow> if s = 0x2B \<or> s = 0x2D then [s] else []);
                 r2 = drop (length sg) r1;
                 ds = takeWhile is_digit r2
             in if ds = [] then None else Some (acc @ c # sg @ ds, dropWhile is_digit r2))
          else Some (acc, r))"

definition parse_fraction :: "jsstring \<Rightarrow> jsstring \<Rightarrow> (jsstring \<times> jsstring) option" where
  "parse_fraction acc r =
     (case r of
        [] \<Rightarrow> Some (acc, [])
      | c # r1 \<Rightarrow>
          if c = 0x2E then
            (let ds = takeWhile is_digit r1
             in if ds = [] then None else parse_exponent (acc @ c # ds) (dropWhile is_digit r1))
          else parse_exponent acc r)"

definition parse_number :: "jsstring \<Rightarrow> (jsstring \<times> jsstring) option" where
  "parse_number cs =
     (let sg = (case cs of [] \<Rightarrow> [] | s # _ \<Rightarrow> if s = 0x2D then [s] else []);
          r0 = drop (length sg) cs
      in case r0 of
           [] \<Rightarrow> None
         | d # r1 \<Rightarrow>
             if d = 0x30 then parse_fraction (sg @ [d]) r1
             else if is_digit d then
               parse_fraction (sg @ d # takeWhile is_digit r1) (dropWhile is_digit r1)
             else None)"

definition parse_literal :: "jsstring \<Rightarrow> (json \<times> jsstring) option" where
  "parse_literal cs =
     (if take 4 cs = js ''true'' then Some (JBool True, drop 4 cs)
      else if take 5 cs = js ''false'' then Some (JBool False, drop 5 cs)
      else if take 4 cs = js ''null'' then Some (JNull, drop 4 cs)
      else map_option (\<lambda>(t, r). (JNumber t, r)) (parse_number cs))"

fun parse_value :: "nat \<Rightarrow> jsstring \<Rightarrow> (json \<times> jsstring) option"
  and parse_elements :: "nat \<Rightarrow> jsstring \<Rightarrow> (json list \<times> jsstring) option"
  and parse_members :: "nat \<Rightarrow> jsstring \<Rightarrow> ((jsstring \<times> json) list \<times> jsstring) option"
where
  "parse_value 0 cs = None"
| "parse_value (Suc n) cs =
     (case skip_ws cs of
        [] \<Rightarrow> None
      | c # r \<Rightarrow>
          if c = 0x22 then map_option (\<lambda>(s, t). (JString s, t)) (parse_string_body r)
          else if c = 0x5B then
            (case skip_ws r of
               [] \<Rightarrow> None
             | d # r1 \<Rightarrow>
                 if d = 0x5D then Some (JArray [], r1)
                 else map_option (\<lambda>(vs, t). (JArray vs, t)) (parse_elements n r))
          else if c = 0x7B then
            (case skip_ws r of
               [] \<Rightarrow> None
             | d # r1 \<Rightarrow>
                 if d = 0x7D then Some (JObject [], r1)
                 else map_option (\<lambda>(ms, t). (JObject ms, t)) (parse_members n r))
          else parse_literal (c # r))"
| "parse_elements 0 cs = None"
| "parse_elements (Suc n) cs =
     (case parse_value n cs of
        None \<Rightarrow> None
      | Some (v, r) \<Rightarrow>
          (case skip_ws r of
             [] \<Rightarrow> None
           | c # r1 \<Rightarrow>
               if c = 0x2C then map_option (\<lambda>(vs, t). (v # vs, t)) (parse_elements n r1)
               else if c = 0x5D then Some ([v], r1)
               else None))"
| "parse_members 0 cs = None"
| "parse_members (Suc n) cs =
     (case skip_ws cs of
        [] \<Rightarrow> None
      | c # r \<Rightarrow>
          if c = 0x22 then
            (case parse_string_body r of
               None \<Rightarrow> None
             | Some (k, r1) \<Rightarrow>
                 (case skip_ws r1 of
                    [] \<Rightarrow> None
                  | d # r2 \<Rightarrow>
                      if d = 0x3A then
                        (case parse_value n r2 of
                           None \<Rightarrow> None
                         | Some (v, r3) \<Rightarrow>
                             (case skip_ws r3 of
                                [] \<Rightarrow> None
                              | e # r4 \<Rightarrow>
                                  if e = 0x2C
                                  then map_option (\<lambda>(ms, t). ((k, v) # ms, t)) (parse_members n r4)
                                  else if e = 0x7D then Some ([(k, v)], r4)
                                  else None))
                      else None))
          else None)"

definition JSON_parse :: "jsstring \<Rightarrow> json option" where
  "JSON_parse t =
     (case parse_value (2 * length t + 2) t of
        None \<Rightarrow> None
      | Some (v, r) \<Rightarrow> if skip_ws r = [] then Some v else None)"


text \<open>
  The type \<open>EncryptedPayload\<close> of the source, and \<open>JSON.stringify\<close> of an object
  with these four string members, in the order the source lists them.
\<close>

record payload =
  keyId :: jsstring
  iv :: jsstring
  ciphertext :: jsstring
  tag :: jsstring

definition JSON_stringify_payload :: "payload \<Rightarrow> jsstring" where
  "JSON_stringify_payload p =
     js ''{'' @ json_quote (js ''keyId'') @ js '':'' @ json_quote (keyId p) @ js '','' @
     json_quote (js ''iv'') @ js '':'' @ json_quote (iv p) @ js '','' @
     json_quote (js ''ciphertext'') @ js '':'' @ json_quote (ciphertext p) @ js '','' @
     json_quote (js ''tag'') @ js '':'' @ json_quote (tag p) @ js ''}''"

definition payload_json :: "payload \<Rightarrow> json" where
  "payload_json p =
     JObject [(js ''keyId'', JString (keyId p)), (js ''iv'', JString (iv p)),
              (js ''ciphertext'', JString (ciphertext p)), (js ''tag'', JString (tag p))]"


subsection \<open>Parsing inverts stringification of a payload\<close>

lemma hex_digit_char: "n < 16 \<Longrightarrow> hex_digit (hex_char n) = Some n"
  by (auto simp add: hex_digit_def hex_char_def unat_of_nat Let_def)

lemma hex4_escape:
  "hex4 (hex_char (unat u div 4096)) (hex_char (unat u div 256 mod 16))
        (hex_char (unat u div 16 mod 16)) (hex_char (unat u mod 16)) = Some u"
proof -
  define d where "d = unat u mod 16"
  define x where "x = unat u div 16"
  define c where "c = x mod 16"
  define y where "y = x div 16"
  define b where "b = y mod 16"
  define a where "a = y div 16"
  have e: "unat u = 16 * x + d" "d < 16" "x = 16 * y + c" "c < 16" "y = 16 * a + b" "b < 16"
    by (simp_all add: d_def x_def c_def y_def b_def a_def)
  have a: "a < 16"
    using e unat_unit_less [of u] by linarith
  have j: "((a * 16 + b) * 16 + c) * 16 + d = unat u"
    by (simp add: e(1) e(3) e(5))
  have r: "unat u div 4096 = a" "unat u div 256 mod 16 = b" "unat u div 16 mod 16 = c"
    by (simp_all add: a_def b_def c_def x_def y_def div_mult2_eq [symmetric])
  show ?thesis
    unfolding r d_def [symmetric]
    by (simp only: hex4_def hex_digit_char a e(2,4,6) j of_nat_unat_unit prod.case option.case)
qed

lemma parse_unicode_escape:
  "parse_string_body (unicode_escape u @ rest) = cons_unit u (parse_string_body rest)"
  by (simp add: unicode_escape_def hex4_escape)

lemma parse_escape_unit:
  "\<not> is_high u \<Longrightarrow> \<not> is_low u \<Longrightarrow>
   parse_string_body (json_escape_unit u @ rest) = cons_unit u (parse_string_body rest)"
  by (simp add: json_escape_unit_def parse_unicode_escape simple_escape_def)

lemma surrogate_not_special:
  "is_high u \<or> is_low u \<Longrightarrow> u \<noteq> 0x22 \<and> u \<noteq> 0x5C \<and> \<not> u < 0x20"
  unfolding is_high_def is_low_def by (auto; unat_arith)

lemma parse_escaped:
  "parse_string_body
     ((if is_high u \<or> is_low u then unicode_escape u else json_escape_unit u) @ rest)
   = cons_unit u (parse_string_body rest)"
  by (simp add: parse_unicode_escape parse_escape_unit)

lemma parse_pair:
  assumes "is_high u" "is_low v"
  shows "parse_string_body (u # v # rest) = cons_unit u (cons_unit v (parse_string_body rest))"
  using surrogate_not_special [of u] surrogate_not_special [of v] assms by simp

lemma parse_quote_units:
  "parse_string_body (json_quote_units s @ 0x22 # rest) = Some (s, rest)"
proof (induction s rule: json_quote_units.induct)
  case (1 u v vs)
  show ?case
  proof (cases "is_high u \<and> is_low v")
    case True
    then have "json_quote_units (u # v # vs) @ 0x22 # rest
               = u # v # (json_quote_units vs @ 0x22 # rest)"
      by simp
    then show ?thesis
      using True 1(1) [OF True] by (simp only: parse_pair) (simp add: cons_unit_def)
  next
    case False
    then have "json_quote_units (u # v # vs) @ 0x22 # rest
               = (if is_high u \<or> is_low u then unicode_escape u else json_escape_unit u)
                 @ (json_quote_units (v # vs) @ 0x22 # rest)"
      by (simp only: json_quote_units.simps False if_False append_assoc)
    then show ?thesis
      using 1(2) [OF False] by (simp only: parse_escaped) (simp add: cons_unit_def)
  qed
next
  case (2 u)
  have "parse_string_body (0x22 # rest) = Some ([], rest)"
    by simp
  then show ?case
    by (simp only: json_quote_units.simps parse_escaped) (simp add: cons_unit_def)
next
  case 3
  show ?case by simp
qed

lemma skip_ws_simps:
  "skip_ws (0x22 # r) = 0x22 # r" "skip_ws (0x3A # r) = 0x3A # r" "skip_ws (0x2C # r) = 0x2C # r"
  "skip_ws (0x7D # r) = 0x7D # r" "skip_ws (0x7B # r) = 0x7B # r" "skip_ws [] = []"
  by (simp_all add: skip_ws_def is_ws_def)

lemma parse_value_string:
  "parse_value (Suc n) (json_quote s @ rest) = Some (JString s, rest)"
  by (simp add: skip_ws_simps json_quote_def parse_quote_units del: parse_string_body.simps)

lemma parse_members_last:
  "parse_members (Suc (Suc n)) (json_quote k @ 0x3A # json_quote v @ 0x7D # rest)
   = Some ([(k, JString v)], rest)"
proof -
  have k: "parse_string_body (json_quote_units k @ 0x22 # 0x3A # json_quote v @ 0x7D # rest)
           = Some (k, 0x3A # json_quote v @ 0x7D # rest)"
    by (rule parse_quote_units)
  have v: "parse_value (Suc n) (json_quote v @ 0x7D # rest) = Some (JString v, 0x7D # rest)"
    by (rule parse_value_string)
  show ?thesis
    using k v
    by (simp add: skip_ws_simps json_quote_def
          del: parse_string_body.simps parse_value.simps)
qed

lemma parse_members_more:
  assumes "parse_members (Suc n) rest = Some (ms, t)"
  shows "parse_members (Suc (Suc n)) (json_quote k @ 0x3A # json_quote v @ 0x2C # rest)
         = Some ((k, JString v) # ms, t)"
proof -
  have k: "parse_string_body (json_quote_units k @ 0x22 # 0x3A # json_quote v @ 0x2C # rest)
           = Some (k, 0x3A # json_quote v @ 0x2C # rest)"
    by (rule parse_quote_units)
  have v: "parse_value (Suc n) (json_quote v @ 0x2C # rest) = Some (JString v, 0x2C # rest)"
    by (rule parse_value_string)
  show ?thesis
    using k v assms
    by (simp add: skip_ws_simps json_quote_def
          del: parse_string_body.simps parse_value.simps)
qed

lemma js_punct:
  "js ''{'' = [0x7B]" "js '':'' = [0x3A]" "js '','' = [0x2C]" "js ''}'' = [0x7D]"
  by (simp_all add: js_def)

lemma stringify_form:
  "JSON_stringify_payload p =
     0x7B # (json_quote (js ''keyId'') @ 0x3A # json_quote (keyId p) @ 0x2C #
            (json_quote (js ''iv'') @ 0x3A # json_quote (iv p) @ 0x2C #
            (json_quote (js ''ciphertext'') @ 0x3A # json_quote (ciphertext p) @ 0x2C #
            (json_quote (js ''tag'') @ 0x3A # json_quote (tag p) @ 0x7D # []))))"
  by (simp add: JSON_stringify_payload_def js_punct)

lemma parse_members_payload:
  "parse_members (Suc (Suc (Suc (Suc (Suc n)))))
     (json_quote (js ''keyId'') @ 0x3A # json_quote (keyId p) @ 0x2C #
     (json_quote (js ''iv'') @ 0x3A # json_quote (iv p) @ 0x2C #
     (json_quote (js ''ciphertext'') @ 0x3A # json_quote (ciphertext p) @ 0x2C #
     (json_quote (js ''tag'') @ 0x3A # json_quote (tag p) @ 0x7D # rest))))
   = Some ([(js ''keyId'', JString (keyId p)), (js ''iv'', JString (iv p)),
            (js ''ciphertext'', JString (ciphertext p)), (js ''tag'', JString (tag p))], rest)"
  by (intro parse_members_more parse_members_last)

lemma parse_value_object:
  "parse_members n (json_quote k @ r) = Some (ms, t) \<Longrightarrow>
   parse_value (Suc n) (0x7B # json_quote k @ r) = Some (JObject ms, t)"
  by (simp add: skip_ws_simps json_quote_def)

lemma parse_value_payload:
  "parse_value (Suc (Suc (Suc (Suc (Suc (Suc n)))))) (JSON_stringify_payload p)
   = Some (payload_json p, [])"
  unfolding stringify_form payload_json_def
  by (rule parse_value_object) (rule parse_members_payload)

lemma length_stringify_ge: "2 \<le> length (JSON_stringify_payload p)"
  by (simp add: stringify_form json_quote_def)

lemma JSON_parse_stringify: "JSON_parse (JSON_stringify_payload p) = Some (payload_json p)"
proof -
  define k where "k = 2 * length (JSON_stringify_payload p) - 4"
  have k: "2 * length (JSON_stringify_payload p) + 2 = Suc (Suc (Suc (Suc (Suc (Suc k)))))"
    using length_stringify_ge [of p] unfolding k_def by linarith
  show ?thesis
    unfolding JSON_parse_def k parse_value_payload by (simp add: skip_ws_simps)
qed

unbundle bit_operations_syntax

section \<open>The credential cipher\<close>

text \<open>
  The cipher of \<open>node:crypto\<close> is a parameter of the model: \<open>gcm_encrypt key nonce
  plaintext\<close> is the ciphertext and the authentication tag that
  \<open>createCipheriv('aes-256-gcm', key, iv, {authTagLength: 16})\<close> produces, and
  \<open>gcm_decrypt key nonce ciphertext tag\<close> is the plaintext that
  \<open>createDecipheriv\<close>, \<open>setAuthTag\<close>, \<open>update\<close> and \<open>final\<close> return, or
  \<open>None\<close> when one of them throws (a nonce or tag the cipher refuses, a tag that
  does not verify).
\<close>

record aead =
  gcm_encrypt :: "buffer \<Rightarrow> buffer \<Rightarrow> buffer \<Rightarrow> buffer \<times> buffer"
  gcm_decrypt :: "buffer \<Rightarrow> buffer \<Rightarrow> buffer \<Rightarrow> buffer \<Rightarrow> buffer option"

definition IV_LENGTH :: nat where
  "IV_LENGTH = 12"

definition AUTH_TAG_LENGTH :: nat where
  "AUTH_TAG_LENGTH = 16"

text \<open>
  What the model relies on for AES-256-GCM with a 32-byte key and a 12-byte nonce: the
  ciphertext is as long as the plaintext, the tag has 16 bytes, and decryption under
  the same key and nonce returns the plaintext.
\<close>

definition aes_256_gcm :: "aead \<Rightarrow> bool" where
  "aes_256_gcm A =
     (\<forall>key nonce pt. length key = 32 \<and> length nonce = IV_LENGTH \<longrightarrow>
        length (fst (gcm_encrypt A key nonce pt)) = length pt \<and>
        length (snd (gcm_encrypt A key nonce pt)) = AUTH_TAG_LENGTH \<and>
        gcm_decrypt A key nonce (fst (gcm_encrypt A key nonce pt)) (snd (gcm_encrypt A key nonce pt))
          = Some pt)"

text \<open>
  The errors the two functions raise: the two \<open>Error\<close>s of \<open>getKey\<close>, the size
  guard, the \<open>SyntaxError\<close> of \<open>JSON.parse\<close>, the \<open>TypeError\<close> of reading a
  member of \<open>null\<close> or of \<open>Buffer.from\<close> on a value that is no string, and the
  errors of the decipher. \<open>Buffer.from\<close> would convert an array or an array-like
  object; such members are outside the model and reported as \<open>MemberNotModelled\<close>.
\<close>

datatype crypto_error =
    KeyNotSet
  | KeyNot32Bytes
  | PayloadExceeds16KB
  | JsonSyntaxError
  | TypeError
  | MemberNotModelled
  | DecipherError

text \<open>
  \<open>getKey\<close> reads \<open>process.env\<close> directly. \<open>||\<close> replaces an unset or empty key
  identifier by \<open>default\<close>; \<open>!keyB64\<close> holds for an unset or empty key.
\<close>

definition getKey :: "process_env \<Rightarrow> crypto_error + (buffer \<times> jsstring)" where
  "getKey penv =
     (let keyB64 = penv ''TOKEN_ENCRYPTION_KEY'';
          kid = (case penv ''TOKEN_ENCRYPTION_KEY_ID'' of
                   None \<Rightarrow> js ''default''
                 | Some s \<Rightarrow> if s \<noteq> [] then s else js ''default'')
      in case keyB64 of
           None \<Rightarrow> Inl KeyNotSet
         | Some k \<Rightarrow>
             if k = [] then Inl KeyNotSet
             else if length (base64_decode k) \<noteq> 32 then Inl KeyNot32Bytes
             else Inr (base64_decode k, kid))"

text \<open>
  \<open>encryptToB64\<close>. \<open>nonce\<close> stands for the result of \<open>randomBytes(IV_LENGTH)\<close>.
  \<open>seal_payload\<close> is the \<open>payload\<close> object the function builds before the length
  guard.
\<close>

definition seal_payload :: "aead \<Rightarrow> buffer \<Rightarrow> jsstring \<Rightarrow> buffer \<Rightarrow> jsstring \<Rightarrow> payload" where
  "seal_payload A key kid nonce plaintext =
     (let sealed = gcm_encrypt A key nonce (utf8_encode plaintext)
      in \<lparr> keyId = kid,
           iv = base64_encode nonce,
           ciphertext = base64_encode (fst sealed),
           tag = base64_encode (snd sealed) \<rparr>)"

definition encryptToB64 :: "aead \<Rightarrow> process_env \<Rightarrow> buffer \<Rightarrow> jsstring \<Rightarrow> crypto_error + jsstring" where
  "encryptToB64 A penv nonce plaintext =
     (case getKey penv of
        Inl e \<Rightarrow> Inl e
      | Inr (key, kid) \<Rightarrow>
          (let payload = seal_payload A key kid nonce plaintext;
               size = length (utf8_encode (JSON_stringify_payload payload))
           in if size > 16 * 1024 then Inl PayloadExceeds16KB
              else Inr (base64_encode (utf8_encode (JSON_stringify_payload payload)))))"

text \<open>
  \<open>decryptFromB64\<close>. \<open>member_buffer v name\<close> is \<open>Buffer.from(v[name], 'base64')\<close>
  for a parsed value \<open>v\<close>; of a repeated member name the last one counts. The member
  \<open>keyId\<close> is never read.
\<close>

definition member_buffer :: "json \<Rightarrow> jsstring \<Rightarrow> crypto_error + buffer" where
  "member_buffer v name =
     (case v of
        JNull \<Rightarrow> Inl TypeError
      | JObject ms \<Rightarrow>
          (case map_of (rev ms) name of
             None \<Rightarrow> Inl TypeError
           | Some (JString s) \<Rightarrow> Inr (base64_decode s)
           | Some (JArray xs) \<Rightarrow> Inl MemberNotModelled
           | Some (JObject xs) \<Rightarrow> Inl MemberNotModelled
           | Some _ \<Rightarrow> Inl TypeError)
      | _ \<Rightarrow> Inl TypeError)"

definition decryptFromB64 :: "aead \<Rightarrow> process_env \<Rightarrow> jsstring \<Rightarrow> crypto_error + jsstring" where
  "decryptFromB64 A penv b64 =
     (case getKey penv of
        Inl e \<Rightarrow> Inl e
      | Inr (key, kid) \<Rightarrow>
          (case JSON_parse (utf8_decode (base64_decode b64)) of
             None \<Rightarrow> Inl JsonSyntaxError
           | Some payload \<Rightarrow>
               (case member_buffer payload (js ''iv'') of
                  Inl e \<Rightarrow> Inl e
                | Inr nonce \<Rightarrow>
                    (case member_buffer payload (js ''tag'') of
                       Inl e \<Rightarrow> Inl e
                     | Inr tg \<Rightarrow>
                         (case member_buffer payload (js ''ciphertext'') of
                            Inl e \<Rightarrow> Inl e
                          | Inr ct \<Rightarrow>
                              (case gcm_decrypt A key nonce ct tg of
                                 None \<Rightarrow> Inl DecipherError
                               | Some pt \<Rightarrow> Inr (utf8_decode pt)))))))"

text \<open>
  A stand-in cipher for closed examples: an XOR pad and a 16-byte checksum, with the
  interface and the sizes of AES-256-GCM. It satisfies \<open>aes_256_gcm\<close>; it is not
  AES. \<open>demo_key\<close> is the base64 text of 32 zero bytes.
\<close>

definition pad_byte :: "buffer \<Rightarrow> buffer \<Rightarrow> 8 word" where
  "pad_byte key nonce = foldr (XOR) (key @ nonce) 0x5A"

definition demo_aead :: aead where
  "demo_aead =
     \<lparr> gcm_encrypt = (\<lambda>key nonce pt.
         (map (\<lambda>b. b XOR pad_byte key nonce) pt,
          replicate 16 (foldr (XOR) pt (pad_byte key nonce)))),
       gcm_decrypt = (\<lambda>key nonce ct tg.
         (let pt = map (\<lambda>b. b XOR pad_byte key nonce) ct
          in if tg = replicate 16 (foldr (XOR) pt (pad_byte key nonce)) then Some pt else None)) \<rparr>"

definition demo_key :: jsstring where
  "demo_key = js ''AAAAAAAAAAAAAAAAAAAAAAAAAAAAAAAAAAAAAAAAAAA=''"

definition demo_env :: process_env where
  "demo_env = (\<lambda>n. None)(''TOKEN_ENCRYPTION_KEY'' := Some demo_key)"

definition demo_nonce :: buffer where
  "demo_nonce = [1, 2, 3, 4, 5, 6, 7, 8, 9, 10, 11, 12]"


lemma xor_cancel: "(b XOR p) XOR p = (b :: 8 word)"
  by (simp add: xor.assoc)

lemma demo_aead_ok: "aes_256_gcm demo_aead"
  by (simp add: aes_256_gcm_def demo_aead_def AUTH_TAG_LENGTH_def Let_def o_def xor_cancel)

lemma replicate_32: "replicate 32 x = [x,x,x,x,x,x,x,x,x,x,x,x,x,x,x,x,x,x,x,x,x,x,x,x,x,x,x,x,x,x,x,x]"
  by (simp add: numeral_eq_Suc)

lemma demo_key_bytes: "base64_decode demo_key = replicate 32 0"
  unfolding replicate_32
  by (simp add: demo_key_def js_def base64_decode_def b64_sextets_def unbase64_def
        List.map_filter_simps)

subsection \<open>The size of the serialized envelope\<close>

text \<open>
  A code unit is \<open>plain\<close> when it is printable ASCII other than the quote and the
  backslash: \<open>JSON.stringify\<close> copies it and UTF-8 writes it as one byte.
\<close>

definition plain :: "16 word \<Rightarrow> bool" where
  "plain u = (0x20 \<le> u \<and> u < 0x80 \<and> u \<noteq> 0x22 \<and> u \<noteq> 0x5C)"

lemma plain_not_surrogate: "plain u \<Longrightarrow> \<not> is_high u \<and> \<not> is_low u"
  unfolding plain_def is_high_def is_low_def by (auto; unat_arith)

lemma plain_unat: "plain u \<Longrightarrow> unat u < 0x80"
  unfolding plain_def by (simp add: word_less_nat_alt)

lemma plain_escape: "plain u \<Longrightarrow> json_escape_unit u = [u]"
  unfolding plain_def json_escape_unit_def by (auto; unat_arith)

lemma json_quote_units_plain: "list_all plain s \<Longrightarrow> json_quote_units s = s"
  by (induction s rule: json_quote_units.induct)
     (simp_all add: plain_not_surrogate plain_escape)

lemma json_quote_plain: "list_all plain s \<Longrightarrow> json_quote s = 0x22 # s @ [0x22]"
  by (simp add: json_quote_def json_quote_units_plain)

lemma ascii_not_surrogate: "u < 0x80 \<Longrightarrow> \<not> is_high u \<and> \<not> is_low u"
  unfolding is_high_unat is_low_unat word_less_nat_alt by simp

lemma code_points_ascii: "list_all (\<lambda>u. u < 0x80) s \<Longrightarrow> code_points s = map unat s"
  by (induction s rule: code_points.induct) (simp_all add: ascii_not_surrogate)

lemma length_utf8_ascii:
  assumes "list_all (\<lambda>u. u < 0x80) s"
  shows "length (utf8_encode s) = length s"
proof -
  have "length (concat (map utf8_seq (map unat s))) = length s"
    using assms
    by (induction s) (simp_all add: utf8_seq_def word_less_nat_alt)
  then show ?thesis
    by (simp add: utf8_encode_def code_points_ascii [OF assms])
qed

lemma b64_char_plain: "n < 64 \<Longrightarrow> plain (b64_char n)"
proof -
  assume n: "n < 64"
  have c: "0x20 \<le> b64_code n" "b64_code n < 0x80" "b64_code n \<noteq> 0x22" "b64_code n \<noteq> 0x5C"
    using n by (auto simp add: b64_code_def)
  have u: "unat (b64_char n) = b64_code n"
    using c(2) by (simp add: b64_char_def unat_of_nat)
  show ?thesis
    unfolding plain_def word_le_nat_alt word_less_nat_alt
    using c u by (auto simp add: word_le_nat_alt word_less_nat_alt dest: arg_cong [where f = unat])
qed

lemma base64_encode_plain: "list_all plain (base64_encode bs)"
proof (induction bs rule: base64_encode.induct)
  case (1 a b c rest)
  then show ?case
    by (simp add: b64_char_plain sextet_bounds unat_byte_less)
next
  case (2 a b)
  show ?case
    by (simp add: b64_char_plain sextet_bounds unat_byte_less) (simp add: plain_def)
next
  case (3 a)
  show ?case
    by (simp add: b64_char_plain sextet_bounds unat_byte_less) (simp add: plain_def)
next
  case 4
  show ?case by simp
qed

lemma plain_names:
  "list_all plain (js ''keyId'')" "list_all plain (js ''iv'')"
  "list_all plain (js ''ciphertext'')" "list_all plain (js ''tag'')"
  "list_all plain (js ''default'')"
  by (simp_all add: js_def plain_def)

lemma plain_ascii: "list_all plain s \<Longrightarrow> list_all (\<lambda>u. u < 0x80) s"
  by (induction s) (simp_all add: plain_def)

lemma stringify_plain:
  assumes "list_all plain (keyId p)" "list_all plain (iv p)"
    "list_all plain (ciphertext p)" "list_all plain (tag p)"
  shows "list_all (\<lambda>u. u < 0x80) (JSON_stringify_payload p)"
    and "length (JSON_stringify_payload p)
         = 45 + length (keyId p) + length (iv p) + length (ciphertext p) + length (tag p)"
  using assms plain_ascii [OF assms(1)] plain_ascii [OF assms(2)] plain_ascii [OF assms(3)]
    plain_ascii [OF assms(4)]
  by (simp_all add: stringify_form json_quote_plain plain_names) (simp_all add: js_def)

lemma seal_payload_size:
  assumes "aes_256_gcm A" "length key = 32" "length nonce = IV_LENGTH" "list_all plain kid"
  shows "length (utf8_encode (JSON_stringify_payload (seal_payload A key kid nonce p)))
         = 85 + length kid + 4 * ((length (utf8_encode p) + 2) div 3)"
proof -
  let ?q = "seal_payload A key kid nonce p"
  have f: "list_all plain (keyId ?q)" "list_all plain (iv ?q)"
    "list_all plain (ciphertext ?q)" "list_all plain (tag ?q)"
    using assms(4) by (simp_all add: seal_payload_def Let_def base64_encode_plain)
  have l: "length (fst (gcm_encrypt A key nonce (utf8_encode p))) = length (utf8_encode p)"
    "length (snd (gcm_encrypt A key nonce (utf8_encode p))) = AUTH_TAG_LENGTH"
    using assms(1-3) unfolding aes_256_gcm_def by blast+
  have "length (JSON_stringify_payload ?q)
        = 45 + length kid + 16 + 4 * ((length (utf8_encode p) + 2) div 3) + 24"
    unfolding stringify_plain(2) [OF f]
    by (simp add: seal_payload_def Let_def length_base64_encode l assms(3) IV_LENGTH_def
          AUTH_TAG_LENGTH_def)
  then show ?thesis
    by (simp add: length_utf8_ascii [OF stringify_plain(1) [OF f]])
qed

subsection \<open>Serialized envelopes are well-formed strings\<close>

lemma wf_cons: "\<not> is_high u \<Longrightarrow> \<not> is_low u \<Longrightarrow> well_formed s \<Longrightarrow> well_formed (u # s)"
  by (cases s) simp_all

lemma wf_pair: "is_high u \<Longrightarrow> is_low v \<Longrightarrow> well_formed s \<Longrightarrow> well_formed (u # v # s)"
  by simp

lemma wf_append: "well_formed a \<Longrightarrow> well_formed b \<Longrightarrow> well_formed (a @ b)"
proof (induction a rule: well_formed.induct)
  case (1 u v vs)
  then show ?case by (cases "is_high u") simp_all
next
  case (2 u)
  then show ?case by (simp add: wf_cons)
next
  case 3
  then show ?case by simp
qed

lemma wf_no_surrogates: "list_all (\<lambda>u. \<not> is_high u \<and> \<not> is_low u) s \<Longrightarrow> well_formed s"
  by (induction s) (simp_all add: wf_cons)

lemma hex_char_plain: "n < 16 \<Longrightarrow> plain (hex_char n)"
proof -
  assume n: "n < 16"
  define c where "c = (if n < 10 then 0x30 + n else 0x61 + (n - 10))"
  have c: "0x20 \<le> c" "c < 0x80" "c \<noteq> 0x22" "c \<noteq> 0x5C"
    using n by (auto simp add: c_def)
  have u: "unat (hex_char n) = c"
    using c(2) by (simp add: hex_char_def unat_of_nat c_def)
  show ?thesis
    unfolding plain_def word_le_nat_alt word_less_nat_alt
    using c u by (auto simp add: word_le_nat_alt word_less_nat_alt dest: arg_cong [where f = unat])
qed

lemma wf_unicode_escape: "well_formed (unicode_escape u)"
proof -
  have "unat u div 4096 < 16"
    using unat_unit_less [of u] by (simp add: div_mult2_eq [symmetric] less_mult_imp_div_less)
  then show ?thesis
    by (intro wf_no_surrogates)
       (simp add: unicode_escape_def hex_char_plain plain_not_surrogate, simp add: is_high_def is_low_def)
qed

lemma wf_escape_unit: "\<not> is_high u \<Longrightarrow> \<not> is_low u \<Longrightarrow> well_formed (json_escape_unit u)"
  by (simp add: json_escape_unit_def wf_unicode_escape is_high_def is_low_def)

lemma wf_quote_units: "well_formed (json_quote_units s)"
proof (induction s rule: json_quote_units.induct)
  case (1 u v vs)
  show ?case
  proof (cases "is_high u \<and> is_low v")
    case True
    with 1 show ?thesis by simp
  next
    case False
    have "well_formed (if is_high u \<or> is_low u then unicode_escape u else json_escape_unit u)"
      by (simp add: wf_unicode_escape wf_escape_unit)
    from wf_append [OF this 1(2) [OF False]] False show ?thesis
      by (simp only: json_quote_units.simps if_False)
  qed
next
  case (2 u)
  show ?case by (simp add: wf_unicode_escape wf_escape_unit)
next
  case 3
  show ?case by simp
qed

lemma wf_quote: "well_formed (json_quote s)"
proof -
  have q: "\<not> is_high 0x22" "\<not> is_low 0x22"
    by (simp_all add: is_high_def is_low_def)
  have "well_formed [0x22]"
    using q by simp
  from wf_append [OF wf_quote_units this] show ?thesis
    unfolding json_quote_def by (rule wf_cons [OF q])
qed

lemma wf_punct:
  "well_formed (0x3A # s) = well_formed s" "well_formed (0x2C # s) = well_formed s"
  "well_formed (0x7B # s) = well_formed s" "well_formed [0x7D]"
  by (cases s; simp add: is_high_def is_low_def)+

lemma wf_stringify: "well_formed (JSON_stringify_payload p)"
  unfolding stringify_form
  by (intro wf_append wf_quote wf_punct(1) [THEN iffD2] wf_punct(2) [THEN iffD2]
        wf_punct(3) [THEN iffD2] wf_punct(4))

subsection \<open>Reading an encoded envelope\<close>

text \<open>
  \<open>encode_envelope\<close> is the text the source returns for a payload.
  \<open>read_envelope\<close> says when a text is a well-formed encoded envelope: it decodes
  and parses to an object whose members \<open>keyId\<close>, \<open>iv\<close>, \<open>ciphertext\<close> and
  \<open>tag\<close> are strings. \<open>open_sealed\<close> is \<open>decryptFromB64(encryptToB64(p))\<close>.
\<close>

definition encode_envelope :: "payload \<Rightarrow> jsstring" where
  "encode_envelope p = base64_encode (utf8_encode (JSON_stringify_payload p))"

definition string_member :: "(jsstring \<times> json) list \<Rightarrow> jsstring \<Rightarrow> jsstring option" where
  "string_member ms name = (case map_of (rev ms) name of Some (JString s) \<Rightarrow> Some s | _ \<Rightarrow> None)"

definition read_envelope :: "jsstring \<Rightarrow> payload option" where
  "read_envelope b64 =
     (case JSON_parse (utf8_decode (base64_decode b64)) of
        Some (JObject ms) \<Rightarrow>
          (case (string_member ms (js ''keyId''), string_member ms (js ''iv''),
                 string_member ms (js ''ciphertext''), string_member ms (js ''tag'')) of
             (Some k, Some i, Some c, Some t) \<Rightarrow>
               Some \<lparr> keyId = k, iv = i, ciphertext = c, tag = t \<rparr>
           | _ \<Rightarrow> None)
      | _ \<Rightarrow> None)"

definition open_sealed :: "aead \<Rightarrow> process_env \<Rightarrow> buffer \<Rightarrow> jsstring \<Rightarrow> crypto_error + jsstring" where
  "open_sealed A penv nonce plaintext =
     (case encryptToB64 A penv nonce plaintext of
        Inl e \<Rightarrow> Inl e
      | Inr b64 \<Rightarrow> decryptFromB64 A penv b64)"

lemma decode_envelope_text:
  "utf8_decode (base64_decode (encode_envelope p)) = JSON_stringify_payload p"
  by (simp add: encode_envelope_def base64_roundtrip utf8_roundtrip wf_stringify)

lemma member_names_distinct:
  "js ''keyId'' \<noteq> js ''iv''" "js ''keyId'' \<noteq> js ''ciphertext''" "js ''keyId'' \<noteq> js ''tag''"
  "js ''iv'' \<noteq> js ''ciphertext''" "js ''iv'' \<noteq> js ''tag''" "js ''ciphertext'' \<noteq> js ''tag''"
  by (simp_all add: js_def)

lemma member_buffer_payload:
  "member_buffer (payload_json p) (js ''iv'') = Inr (base64_decode (iv p))"
  "member_buffer (payload_json p) (js ''tag'') = Inr (base64_decode (tag p))"
  "member_buffer (payload_json p) (js ''ciphertext'') = Inr (base64_decode (ciphertext p))"
  using member_names_distinct
  by (simp_all add: member_buffer_def payload_json_def)

lemma read_encode_envelope: "read_envelope (encode_envelope p) = Some p"
  using member_names_distinct
  by (simp add: read_envelope_def decode_envelope_text JSON_parse_stringify payload_json_def
        string_member_def)

lemma decrypt_encoded:
  assumes "getKey penv = Inr (key, kid)"
  shows "decryptFromB64 A penv (encode_envelope p) =
           (case gcm_decrypt A key (base64_decode (iv p)) (base64_decode (ciphertext p))
                   (base64_decode (tag p)) of
              None \<Rightarrow> Inl DecipherError
            | Some pt \<Rightarrow> Inr (utf8_decode pt))"
  by (simp add: decryptFromB64_def assms decode_envelope_text JSON_parse_stringify
        member_buffer_payload)

lemma decrypt_read:
  assumes "getKey penv = Inr (key, kid)" "read_envelope b64 = Some p"
  shows "decryptFromB64 A penv b64 =
           (case gcm_decrypt A key (base64_decode (iv p)) (base64_decode (ciphertext p))
                   (base64_decode (tag p)) of
              None \<Rightarrow> Inl DecipherError
            | Some pt \<Rightarrow> Inr (utf8_decode pt))"
proof -
  from assms(2) obtain ms where ms: "JSON_parse (utf8_decode (base64_decode b64)) = Some (JObject ms)"
    and m: "string_member ms (js ''iv'') = Some (iv p)"
      "string_member ms (js ''ciphertext'') = Some (ciphertext p)"
      "string_member ms (js ''tag'') = Some (tag p)"
    by (auto simp add: read_envelope_def split: option.splits json.splits)
  have b: "member_buffer (JObject ms) name = Inr (base64_decode s)"
    if "string_member ms name = Some s" for name s
    using that by (auto simp add: member_buffer_def string_member_def split: option.splits json.splits)
  show ?thesis
    by (simp add: decryptFromB64_def assms(1) ms b [OF m(1)] b [OF m(2)] b [OF m(3)])
qed

lemma getKey_key_length: "getKey penv = Inr (key, kid) \<Longrightarrow> length key = 32"
  by (auto simp add: getKey_def Let_def split: option.splits if_splits)

lemma encrypt_result:
  assumes "getKey penv = Inr (key, kid)"
  shows "encryptToB64 A penv nonce p =
           (if length (utf8_encode (JSON_stringify_payload (seal_payload A key kid nonce p))) > 16384
            then Inl PayloadExceeds16KB
            else Inr (encode_envelope (seal_payload A key kid nonce p)))"
  by (simp add: encryptToB64_def assms Let_def encode_envelope_def)

lemma open_sealed_general:
  assumes "aes_256_gcm A" "length nonce = IV_LENGTH" "encryptToB64 A penv nonce p = Inr b64"
  shows "decryptFromB64 A penv b64 = Inr (toWellFormed p)"
proof -
  from assms(3) obtain key kid where k: "getKey penv = Inr (key, kid)"
    by (auto simp add: encryptToB64_def split: sum.splits)
  from assms(3) have e: "b64 = encode_envelope (seal_payload A key kid nonce p)"
    by (simp add: encrypt_result [OF k] split: if_splits)
  have "gcm_decrypt A key nonce (fst (gcm_encrypt A key nonce (utf8_encode p)))
          (snd (gcm_encrypt A key nonce (utf8_encode p))) = Some (utf8_encode p)"
    using assms(1,2) getKey_key_length [OF k] unfolding aes_256_gcm_def by blast
  then show ?thesis
    unfolding e decrypt_encoded [OF k]
    by (simp add: seal_payload_def Let_def base64_roundtrip utf8_decode_encode)
qed

subsection \<open>Key configuration\<close>

text \<open>
  The key is usable when \<open>TOKEN_ENCRYPTION_KEY\<close> is set, not empty and decodes to
  exactly 32 bytes.
\<close>

definition key_usable :: "process_env \<Rightarrow> bool" where
  "key_usable penv =
     (case penv ''TOKEN_ENCRYPTION_KEY'' of
        None \<Rightarrow> False
      | Some k \<Rightarrow> k \<noteq> [] \<and> length (base64_decode k) = 32)"

lemma getKey_unset: "\<not> truthy (penv ''TOKEN_ENCRYPTION_KEY'') \<Longrightarrow> getKey penv = Inl KeyNotSet"
  by (auto simp add: getKey_def truthy_def Let_def split: option.splits)

lemma getKey_wrong_length:
  "penv ''TOKEN_ENCRYPTION_KEY'' = Some k \<Longrightarrow> k \<noteq> [] \<Longrightarrow> length (base64_decode k) \<noteq> 32 \<Longrightarrow>
   getKey penv = Inl KeyNot32Bytes"
  by (simp add: getKey_def Let_def)

lemma getKey_usable:
  "key_usable penv \<Longrightarrow> \<exists>key kid. getKey penv = Inr (key, kid)"
  by (auto simp add: getKey_def key_usable_def Let_def split: option.splits)

lemma getKey_default:
  assumes "penv ''TOKEN_ENCRYPTION_KEY'' = Some k" "k \<noteq> []" "length (base64_decode k) = 32"
    "\<not> truthy (penv ''TOKEN_ENCRYPTION_KEY_ID'')"
  shows "getKey penv = Inr (base64_decode k, js ''default'')"
  using assms by (auto simp add: getKey_def truthy_def Let_def split: option.splits)

lemma encrypt_key_error: "getKey penv = Inl e \<Longrightarrow> encryptToB64 A penv nonce p = Inl e"
  by (simp add: encryptToB64_def)

lemma decrypt_key_error: "getKey penv = Inl e \<Longrightarrow> decryptFromB64 A penv b64 = Inl e"
  by (simp add: decryptFromB64_def)

lemma encrypt_no_key_error:
  "getKey penv = Inr (key, kid) \<Longrightarrow>
   encryptToB64 A penv nonce p \<noteq> Inl KeyNotSet \<and> encryptToB64 A penv nonce p \<noteq> Inl KeyNot32Bytes"
  by (simp add: encrypt_result)

lemma decrypt_no_key_error:
  "getKey penv = Inr (key, kid) \<Longrightarrow>
   decryptFromB64 A penv b64 \<noteq> Inl KeyNotSet \<and> decryptFromB64 A penv b64 \<noteq> Inl KeyNot32Bytes"
  by (auto simp add: decryptFromB64_def member_buffer_def
        split: option.splits sum.splits json.splits)

lemma demo_getKey: "getKey demo_env = Inr (replicate 32 0, js ''default'')"
proof -
  have "demo_key \<noteq> []" by (simp add: demo_key_def js_def)
  then show ?thesis
    by (simp add: getKey_def demo_env_def demo_key_bytes)
qed

lemma demo_nonce_length: "length demo_nonce = IV_LENGTH"
  by (simp add: demo_nonce_def IV_LENGTH_def)

lemma demo_size:
  "length (utf8_encode (JSON_stringify_payload
      (seal_payload demo_aead (replicate 32 0) (js ''default'') demo_nonce p)))
   = 92 + 4 * ((length (utf8_encode p) + 2) div 3)"
  using seal_payload_size [OF demo_aead_ok _ demo_nonce_length plain_names(5), of "replicate 32 0" p]
  by (simp add: js_def)

text \<open>
  Claim C5, as amended. \<open>encryptToB64\<close> and \<open>decryptFromB64\<close> fail with the
  error of \<open>getKey\<close> when the encryption key is unset or empty
  (\<open>KeyNotSet\<close>) and when it does not decode to exactly 32 bytes
  (\<open>KeyNot32Bytes\<close>); no ciphertext and no plaintext is produced then. With a usable
  key neither function fails with one of these errors, whatever the key identifier
  is: an unset key identifier is not an error.
\<close>

theorem key_configuration_errors:
  "(\<not> truthy (penv ''TOKEN_ENCRYPTION_KEY'') \<longrightarrow>
      encryptToB64 A penv nonce p = Inl KeyNotSet \<and> decryptFromB64 A penv b64 = Inl KeyNotSet) \<and>
   (\<forall>k. penv ''TOKEN_ENCRYPTION_KEY'' = Some k \<and> k \<noteq> [] \<and> length (base64_decode k) \<noteq> 32 \<longrightarrow>
      encryptToB64 A penv nonce p = Inl KeyNot32Bytes \<and>
      decryptFromB64 A penv b64 = Inl KeyNot32Bytes) \<and>
   (key_usable penv \<longrightarrow>
      encryptToB64 A penv nonce p \<notin> {Inl KeyNotSet, Inl KeyNot32Bytes} \<and>
      decryptFromB64 A penv b64 \<notin> {Inl KeyNotSet, Inl KeyNot32Bytes})"
proof (intro conjI impI allI)
  assume "\<not> truthy (penv ''TOKEN_ENCRYPTION_KEY'')"
  then have "getKey penv = Inl KeyNotSet"
    by (rule getKey_unset)
  then show "encryptToB64 A penv nonce p = Inl KeyNotSet" "decryptFromB64 A penv b64 = Inl KeyNotSet"
    by (simp_all add: encrypt_key_error decrypt_key_error)
next
  fix k
  assume "penv ''TOKEN_ENCRYPTION_KEY'' = Some k \<and> k \<noteq> [] \<and> length (base64_decode k) \<noteq> 32"
  then have "getKey penv = Inl KeyNot32Bytes"
    by (simp add: getKey_wrong_length)
  then show "encryptToB64 A penv nonce p = Inl KeyNot32Bytes"
    "decryptFromB64 A penv b64 = Inl KeyNot32Bytes"
    by (simp_all add: encrypt_key_error decrypt_key_error)
next
  assume "key_usable penv"
  from getKey_usable [OF this] obtain key kid where "getKey penv = Inr (key, kid)"
    by blast
  from encrypt_no_key_error [OF this] decrypt_no_key_error [OF this]
  show "encryptToB64 A penv nonce p \<notin> {Inl KeyNotSet, Inl KeyNot32Bytes}"
    "decryptFromB64 A penv b64 \<notin> {Inl KeyNotSet, Inl KeyNot32Bytes}"
    by simp_all
qed

theorem key_configuration_errors_witness:
  "encryptToB64 demo_aead (\<lambda>n. None) demo_nonce (js ''t'') = Inl KeyNotSet \<and>
   decryptFromB64 demo_aead (\<lambda>n. None) (js ''e30='') = Inl KeyNotSet \<and>
   encryptToB64 demo_aead ((\<lambda>n. None)(''TOKEN_ENCRYPTION_KEY'' := Some (js ''QUJD'')))
     demo_nonce (js ''t'') = Inl KeyNot32Bytes \<and>
   decryptFromB64 demo_aead ((\<lambda>n. None)(''TOKEN_ENCRYPTION_KEY'' := Some (js ''QUJD'')))
     (js ''e30='') = Inl KeyNot32Bytes \<and>
   key_usable demo_env \<and>
   encryptToB64 demo_aead demo_env demo_nonce (js ''t'') \<notin> {Inl KeyNotSet, Inl KeyNot32Bytes}"
proof -
  have d: "base64_decode (js ''QUJD'') = [0x41, 0x42, 0x43]"
    by (simp add: js_def base64_decode_def b64_sextets_def unbase64_def List.map_filter_simps)
  have u: "key_usable demo_env"
    by (simp add: key_usable_def demo_env_def demo_key_bytes) (simp add: demo_key_def js_def)
  show ?thesis
    using u
      key_configuration_errors [of "\<lambda>n. None" demo_aead demo_nonce "js ''t''" "js ''e30=''"]
      key_configuration_errors [of "(\<lambda>n. None)(''TOKEN_ENCRYPTION_KEY'' := Some (js ''QUJD''))"
        demo_aead demo_nonce "js ''t''" "js ''e30=''"]
      key_configuration_errors [of demo_env demo_aead demo_nonce "js ''t''" "js ''e30=''"]
    by (simp add: truthy_def d) (simp add: js_def)
qed

text \<open>
  The claim as stated fails: with a usable key and no key identifier set,
  \<open>encryptToB64\<close> succeeds, and decryption gives the plaintext back.
\<close>

theorem key_id_unset_counterexample:
  "demo_env ''TOKEN_ENCRYPTION_KEY_ID'' = None \<and>
   encryptToB64 demo_aead demo_env demo_nonce (js ''refresh-token'')
     = Inr (encode_envelope
         (seal_payload demo_aead (replicate 32 0) (js ''default'') demo_nonce (js ''refresh-token''))) \<and>
   open_sealed demo_aead demo_env demo_nonce (js ''refresh-token'') = Inr (js ''refresh-token'')"
proof -
  have a: "list_all (\<lambda>u. u < 0x80) (js ''refresh-token'')"
    by (simp add: js_def)
  have l: "length (utf8_encode (js ''refresh-token'')) = 13"
    unfolding length_utf8_ascii [OF a] by (simp add: js_def)
  have e: "encryptToB64 demo_aead demo_env demo_nonce (js ''refresh-token'')
     = Inr (encode_envelope
         (seal_payload demo_aead (replicate 32 0) (js ''default'') demo_nonce (js ''refresh-token'')))"
    by (simp add: encrypt_result [OF demo_getKey] demo_size l)
  have w: "well_formed (js ''refresh-token'')"
    by (intro wf_no_surrogates) (simp add: js_def is_high_def is_low_def)
  from open_sealed_general [OF demo_aead_ok demo_nonce_length e] e
  show ?thesis
    by (simp add: open_sealed_def demo_env_def toWellFormed_id [OF w])
qed

subsection \<open>The key identifier defaults\<close>

text \<open>
  Claim C9, as amended. When the encryption key is set and decodes to exactly 32 bytes
  and the key identifier is unset, \<open>encryptToB64\<close> does not fail for want of a key
  identifier: it builds the payload with \<open>keyId = 'default'\<close>, and unless the
  serialized payload exceeds 16384 bytes (then it fails with the size error) it
  returns the encoded envelope, which reads back with the key identifier
  \<open>default\<close>.
\<close>

theorem default_key_id:
  assumes "penv ''TOKEN_ENCRYPTION_KEY'' = Some k" "k \<noteq> []" "length (base64_decode k) = 32"
    and "penv ''TOKEN_ENCRYPTION_KEY_ID'' = None"
  shows "encryptToB64 A penv nonce p =
           (if 16384 < length (utf8_encode (JSON_stringify_payload
                 (seal_payload A (base64_decode k) (js ''default'') nonce p)))
            then Inl PayloadExceeds16KB
            else Inr (encode_envelope (seal_payload A (base64_decode k) (js ''default'') nonce p))) \<and>
         map_option keyId (read_envelope
             (encode_envelope (seal_payload A (base64_decode k) (js ''default'') nonce p)))
           = Some (js ''default'')"
proof -
  have "\<not> truthy (penv ''TOKEN_ENCRYPTION_KEY_ID'')"
    using assms(4) by (simp add: truthy_def)
  from getKey_default [OF assms(1-3) this] show ?thesis
    by (simp add: encrypt_result read_encode_envelope) (simp add: seal_payload_def Let_def)
qed

theorem default_key_id_witness:
  "encryptToB64 demo_aead demo_env demo_nonce (js ''1//0gabc'')
     = Inr (encode_envelope
         (seal_payload demo_aead (replicate 32 0) (js ''default'') demo_nonce (js ''1//0gabc''))) \<and>
   map_option keyId (read_envelope (encode_envelope
         (seal_payload demo_aead (replicate 32 0) (js ''default'') demo_nonce (js ''1//0gabc''))))
     = Some (js ''default'')"
proof -
  have k: "demo_env ''TOKEN_ENCRYPTION_KEY'' = Some demo_key" "demo_key \<noteq> []"
    "length (base64_decode demo_key) = 32" "demo_env ''TOKEN_ENCRYPTION_KEY_ID'' = None"
    by (simp_all add: demo_env_def demo_key_bytes) (simp add: demo_key_def js_def)
  have a: "list_all (\<lambda>u. u < 0x80) (js ''1//0gabc'')"
    by (simp add: js_def)
  have l: "length (utf8_encode (js ''1//0gabc'')) = 8"
    unfolding length_utf8_ascii [OF a] by (simp add: js_def)
  show ?thesis
    using default_key_id [OF k, of demo_aead demo_nonce "js ''1//0gabc''"]
    by (simp add: demo_key_bytes demo_size l)
qed

text \<open>
  The claim as stated fails for a long plaintext: with a usable key and no key
  identifier, a plaintext of 20000 characters makes \<open>encryptToB64\<close> fail.
\<close>

theorem default_key_id_counterexample:
  "demo_env ''TOKEN_ENCRYPTION_KEY'' = Some demo_key \<and>
   base64_decode demo_key = replicate 32 0 \<and>
   demo_env ''TOKEN_ENCRYPTION_KEY_ID'' = None \<and>
   encryptToB64 demo_aead demo_env demo_nonce (replicate 20000 0x61) = Inl PayloadExceeds16KB"
proof -
  have a: "list_all (\<lambda>u. u < 0x80) (replicate 20000 (0x61 :: 16 word))"
    by (simp add: list_all_length)
  have l: "length (utf8_encode (replicate 20000 (0x61 :: 16 word))) = 20000"
    unfolding length_utf8_ascii [OF a] by simp
  show ?thesis
    by (simp add: encrypt_result [OF demo_getKey] demo_size l demo_key_bytes) (simp add: demo_env_def)
qed

subsection \<open>The size guard\<close>

text \<open>
  Claim C3, as amended. When \<open>encryptToB64\<close> succeeds, the serialized (JSON)
  envelope has at most 16384 bytes, the returned text is its base64 encoding, which
  decodes to the whole serialized envelope, and the returned text has at most 21848
  bytes. When the key is usable and the serialized envelope would have more than
  16384 bytes, \<open>encryptToB64\<close> fails with the size error instead of truncating.
\<close>

theorem envelope_size_guard:
  "(encryptToB64 A penv nonce p = Inr b64 \<longrightarrow>
      (\<exists>key kid.
         getKey penv = Inr (key, kid) \<and>
         b64 = encode_envelope (seal_payload A key kid nonce p) \<and>
         utf8_decode (base64_decode b64)
           = JSON_stringify_payload (seal_payload A key kid nonce p) \<and>
         length (utf8_encode (JSON_stringify_payload (seal_payload A key kid nonce p))) \<le> 16384) \<and>
      length (utf8_encode b64) \<le> 21848) \<and>
   (getKey penv = Inr (key, kid) \<and>
    16384 < length (utf8_encode (JSON_stringify_payload (seal_payload A key kid nonce p))) \<longrightarrow>
      encryptToB64 A penv nonce p = Inl PayloadExceeds16KB)"
proof (intro conjI impI)
  assume e: "encryptToB64 A penv nonce p = Inr b64"
  then obtain key kid where k: "getKey penv = Inr (key, kid)"
    by (auto simp add: encryptToB64_def split: sum.splits)
  let ?q = "seal_payload A key kid nonce p"
  from e have b: "b64 = encode_envelope ?q"
    and s: "length (utf8_encode (JSON_stringify_payload ?q)) \<le> 16384"
    by (simp_all add: encrypt_result [OF k] split: if_splits)
  from k b s show "\<exists>key kid.
         getKey penv = Inr (key, kid) \<and>
         b64 = encode_envelope (seal_payload A key kid nonce p) \<and>
         utf8_decode (base64_decode b64)
           = JSON_stringify_payload (seal_payload A key kid nonce p) \<and>
         length (utf8_encode (JSON_stringify_payload (seal_payload A key kid nonce p))) \<le> 16384"
    by (auto simp add: decode_envelope_text)
  have "length (utf8_encode b64) = length b64"
    unfolding b encode_envelope_def
    by (rule length_utf8_ascii) (rule plain_ascii [OF base64_encode_plain])
  also have "\<dots> = 4 * ((length (utf8_encode (JSON_stringify_payload ?q)) + 2) div 3)"
    by (simp add: b encode_envelope_def length_base64_encode)
  also have "\<dots> \<le> 21848"
    using s by linarith
  finally show "length (utf8_encode b64) \<le> 21848" .
next
  assume "getKey penv = Inr (key, kid) \<and>
    16384 < length (utf8_encode (JSON_stringify_payload (seal_payload A key kid nonce p)))"
  then show "encryptToB64 A penv nonce p = Inl PayloadExceeds16KB"
    by (simp add: encrypt_result)
qed

theorem envelope_size_guard_witness:
  "encryptToB64 demo_aead demo_env demo_nonce (replicate 12219 0x61)
     = Inr (encode_envelope
         (seal_payload demo_aead (replicate 32 0) (js ''default'') demo_nonce (replicate 12219 0x61))) \<and>
   length (utf8_encode (JSON_stringify_payload
      (seal_payload demo_aead (replicate 32 0) (js ''default'') demo_nonce (replicate 12219 0x61))))
     = 16384 \<and>
   length (utf8_encode (encode_envelope
      (seal_payload demo_aead (replicate 32 0) (js ''default'') demo_nonce (replicate 12219 0x61))))
     \<le> 21848 \<and>
   encryptToB64 demo_aead demo_env demo_nonce (replicate 12220 0x61) = Inl PayloadExceeds16KB"
proof -
  have a: "list_all (\<lambda>u. u < 0x80) (replicate n (0x61 :: 16 word))" for n
    by (simp add: list_all_length)
  have l: "length (utf8_encode (replicate n (0x61 :: 16 word))) = n" for n
    unfolding length_utf8_ascii [OF a] by simp
  have s: "length (utf8_encode (JSON_stringify_payload
      (seal_payload demo_aead (replicate 32 0) (js ''default'') demo_nonce (replicate 12219 0x61))))
     = 16384"
    "length (utf8_encode (JSON_stringify_payload
      (seal_payload demo_aead (replicate 32 0) (js ''default'') demo_nonce (replicate 12220 0x61))))
     = 16388"
    by (simp_all add: demo_size l)
  have e: "encryptToB64 demo_aead demo_env demo_nonce (replicate 12219 0x61)
     = Inr (encode_envelope
         (seal_payload demo_aead (replicate 32 0) (js ''default'') demo_nonce (replicate 12219 0x61)))"
    by (simp add: encrypt_result [OF demo_getKey] s)
  show ?thesis
    using e s
      envelope_size_guard [of demo_aead demo_env demo_nonce "replicate 12219 0x61"
        "encode_envelope (seal_payload demo_aead (replicate 32 0) (js ''default'') demo_nonce
           (replicate 12219 0x61))" "replicate 32 0" "js ''default''"]
      envelope_size_guard [of demo_aead demo_env demo_nonce "replicate 12220 0x61"
        "[]" "replicate 32 0" "js ''default''"]
    by (simp add: demo_getKey)
qed

text \<open>
  The claim as stated fails: the guard measures the serialized envelope before the
  final base64 encoding. A plaintext of 9300 characters is sealed, and the returned
  text has 16656 bytes, more than 16384.
\<close>

theorem envelope_size_counterexample:
  "map_sum id (\<lambda>b64. length (utf8_encode b64))
     (encryptToB64 demo_aead demo_env demo_nonce (replicate 9300 0x61)) = Inr 16656"
proof -
  have a: "list_all (\<lambda>u. u < 0x80) (replicate 9300 (0x61 :: 16 word))"
    by (simp add: list_all_length)
  have l: "length (utf8_encode (replicate 9300 (0x61 :: 16 word))) = 9300"
    unfolding length_utf8_ascii [OF a] by simp
  let ?q = "seal_payload demo_aead (replicate 32 0) (js ''default'') demo_nonce (replicate 9300 0x61)"
  have s: "length (utf8_encode (JSON_stringify_payload ?q)) = 12492"
    by (simp add: demo_size l)
  have "length (utf8_encode (encode_envelope ?q)) = length (encode_envelope ?q)"
    unfolding encode_envelope_def
    by (rule length_utf8_ascii) (rule plain_ascii [OF base64_encode_plain])
  also have "\<dots> = 16656"
    by (simp add: encode_envelope_def length_base64_encode s)
  finally show ?thesis
    by (simp add: encrypt_result [OF demo_getKey] s)
qed

subsection \<open>The key identifier of an envelope is not consulted\<close>

text \<open>
  Claim C8. \<open>decryptFromB64\<close> takes the key from \<open>getKey\<close>, that is from the
  environment, and never reads the member \<open>keyId\<close>: two texts that read as
  envelopes with the same \<open>iv\<close>, \<open>ciphertext\<close> and \<open>tag\<close> decrypt, under the
  same environment, to the same result (the same plaintext or the same error),
  whatever their key identifiers are.
\<close>

theorem key_id_not_consulted:
  assumes "read_envelope e1 = Some p1" "read_envelope e2 = Some p2"
    and "iv p1 = iv p2" "ciphertext p1 = ciphertext p2" "tag p1 = tag p2"
  shows "decryptFromB64 A penv e1 = decryptFromB64 A penv e2"
proof (cases "getKey penv")
  case (Inl e)
  then show ?thesis
    by (simp add: decrypt_key_error)
next
  case (Inr r)
  then obtain key kid where "getKey penv = Inr (key, kid)"
    by (cases r) simp
  from decrypt_read [OF this assms(1)] decrypt_read [OF this assms(2)] assms(3-5)
  show ?thesis by simp
qed

theorem key_id_not_consulted_witness:
  "read_envelope (encode_envelope
      (seal_payload demo_aead (replicate 32 0) (js ''2023-key'') demo_nonce (js ''ya29.token'')))
     \<noteq> read_envelope (encode_envelope
      (seal_payload demo_aead (replicate 32 0) (js ''2024-key'') demo_nonce (js ''ya29.token''))) \<and>
   decryptFromB64 demo_aead demo_env (encode_envelope
      (seal_payload demo_aead (replicate 32 0) (js ''2023-key'') demo_nonce (js ''ya29.token'')))
     = decryptFromB64 demo_aead demo_env (encode_envelope
      (seal_payload demo_aead (replicate 32 0) (js ''2024-key'') demo_nonce (js ''ya29.token''))) \<and>
   decryptFromB64 demo_aead demo_env (encode_envelope
      (seal_payload demo_aead (replicate 32 0) (js ''2024-key'') demo_nonce (js ''ya29.token'')))
     = Inr (js ''ya29.token'')"
proof -
  let ?p1 = "seal_payload demo_aead (replicate 32 0) (js ''2023-key'') demo_nonce (js ''ya29.token'')"
  let ?p2 = "seal_payload demo_aead (replicate 32 0) (js ''2024-key'') demo_nonce (js ''ya29.token'')"
  have n: "?p1 \<noteq> ?p2"
    by (simp add: seal_payload_def Let_def js_def)
  have f: "iv ?p1 = iv ?p2" "ciphertext ?p1 = ciphertext ?p2" "tag ?p1 = tag ?p2"
    by (simp_all add: seal_payload_def Let_def)
  have w: "well_formed (js ''ya29.token'')"
    by (intro wf_no_surrogates) (simp add: js_def is_high_def is_low_def)
  have g: "gcm_decrypt demo_aead (replicate 32 0) demo_nonce
             (fst (gcm_encrypt demo_aead (replicate 32 0) demo_nonce (utf8_encode (js ''ya29.token''))))
             (snd (gcm_encrypt demo_aead (replicate 32 0) demo_nonce (utf8_encode (js ''ya29.token''))))
           = Some (utf8_encode (js ''ya29.token''))"
    using demo_aead_ok demo_nonce_length unfolding aes_256_gcm_def by simp
  have d: "decryptFromB64 demo_aead demo_env (encode_envelope ?p2) = Inr (js ''ya29.token'')"
    unfolding decrypt_encoded [OF demo_getKey]
    by (simp add: seal_payload_def Let_def base64_roundtrip g utf8_roundtrip [OF w])
  show ?thesis
    using n d key_id_not_consulted [OF read_encode_envelope read_encode_envelope f,
        of demo_aead demo_env]
    by (simp add: read_encode_envelope)
qed

subsection \<open>Round trip\<close>

text \<open>
  Claim C2, as amended. For a cipher that behaves as AES-256-GCM, a 12-byte nonce and
  a well-formed plaintext \<open>p\<close> (no surrogate code unit outside a surrogate pair):
  when \<open>encryptToB64\<close> succeeds on \<open>p\<close>, that is when the sealed envelope is
  within the size cap, \<open>decryptFromB64\<close> of the result under the same environment
  returns \<open>p\<close> exactly.
\<close>

theorem seal_open_round_trip:
  assumes "aes_256_gcm A" "length nonce = IV_LENGTH" "well_formed p"
    and "encryptToB64 A penv nonce p = Inr b64"
  shows "decryptFromB64 A penv b64 = Inr p \<and> open_sealed A penv nonce p = Inr p"
  using open_sealed_general [OF assms(1,2,4)] assms(4)
  by (simp add: open_sealed_def toWellFormed_id [OF assms(3)])

theorem seal_open_round_trip_witness:
  "aes_256_gcm demo_aead \<and> length demo_nonce = IV_LENGTH \<and> well_formed (js ''ya29.a0Af_token'') \<and>
   encryptToB64 demo_aead demo_env demo_nonce (js ''ya29.a0Af_token'')
     = Inr (encode_envelope (seal_payload demo_aead (replicate 32 0) (js ''default'') demo_nonce
         (js ''ya29.a0Af_token''))) \<and>
   decryptFromB64 demo_aead demo_env
     (encode_envelope (seal_payload demo_aead (replicate 32 0) (js ''default'') demo_nonce
         (js ''ya29.a0Af_token'')))
     = Inr (js ''ya29.a0Af_token'') \<and>
   open_sealed demo_aead demo_env demo_nonce (js ''ya29.a0Af_token'') = Inr (js ''ya29.a0Af_token'')"
proof -
  have w: "well_formed (js ''ya29.a0Af_token'')"
    by (intro wf_no_surrogates) (simp add: js_def is_high_def is_low_def)
  have a: "list_all (\<lambda>u. u < 0x80) (js ''ya29.a0Af_token'')"
    by (simp add: js_def)
  have l: "length (utf8_encode (js ''ya29.a0Af_token'')) = 15"
    unfolding length_utf8_ascii [OF a] by (simp add: js_def)
  have e: "encryptToB64 demo_aead demo_env demo_nonce (js ''ya29.a0Af_token'')
     = Inr (encode_envelope (seal_payload demo_aead (replicate 32 0) (js ''default'') demo_nonce
         (js ''ya29.a0Af_token'')))"
    by (simp add: encrypt_result [OF demo_getKey] demo_size l)
  show ?thesis
    using seal_open_round_trip [OF demo_aead_ok demo_nonce_length w e] demo_aead_ok
      demo_nonce_length w e
    by simp
qed

text \<open>
  The claim as stated fails for a plaintext with a surrogate outside a pair: UTF-8
  encoding replaces it by U+FFFD before encryption, so the string \<open>\uD800\<close> comes
  back as \<open>\uFFFD\<close>.
\<close>

theorem lone_surrogate_counterexample:
  "encryptToB64 demo_aead demo_env demo_nonce [0xD800]
     = Inr (encode_envelope (seal_payload demo_aead (replicate 32 0) (js ''default'') demo_nonce
         [0xD800])) \<and>
   decryptFromB64 demo_aead demo_env
     (encode_envelope (seal_payload demo_aead (replicate 32 0) (js ''default'') demo_nonce [0xD800]))
     = Inr [0xFFFD] \<and>
   open_sealed demo_aead demo_env demo_nonce [0xD800] = Inr [0xFFFD] \<and>
   open_sealed demo_aead demo_env demo_nonce [0xD800] \<noteq> Inr [0xD800]"
proof -
  have l: "length (utf8_encode [0xD800]) = 3"
    by (simp add: utf8_encode_def is_high_def utf8_seq_def)
  have e: "encryptToB64 demo_aead demo_env demo_nonce [0xD800]
     = Inr (encode_envelope (seal_payload demo_aead (replicate 32 0) (js ''default'') demo_nonce
         [0xD800]))"
    by (simp add: encrypt_result [OF demo_getKey] demo_size l)
  have t: "toWellFormed [0xD800] = [0xFFFD]"
    by (simp add: toWellFormed_def is_high_def utf16_units_def)
  from open_sealed_general [OF demo_aead_ok demo_nonce_length e] e
  show ?thesis
    by (simp add: open_sealed_def t)
qed

section \<open>The database schema: row-level security and retention\<close>

text \<open>
  The nine tables on which the schema enables row-level security. Of a row the model
  keeps the columns that the policies and the pruning function read: \<open>id\<close>,
  \<open>tenant_id\<close> (table \<open>tenants\<close> has no such column; its policy reads \<open>id\<close>)
  and \<open>created_at\<close>, a \<open>timestamptz\<close> in microseconds.
\<close>

type_synonym uuid = "128 word"
type_synonym timestamptz = int

datatype table =
    Tenants | Users | AuthAccounts | Mailboxes | Tasklists | Messages | RoutingRules
  | OnboardingSessions | ActivityLogs

record row =
  row_id :: uuid
  tenant_id :: uuid
  created_at :: timestamptz

text \<open>
  A policy as \<open>CREATE POLICY\<close> declares it. Every policy of the schema is
  permissive, for all commands and for all roles, so only its table, its
  \<open>USING\<close> expression and its \<open>WITH CHECK\<close> expression differ. The two
  expressions used are \<open>false\<close> and
  \<open>column = current_setting('app.tenant_id')::uuid\<close>.
\<close>

datatype column = Id | TenantId

datatype policy_expr = SqlFalse | EqualsCurrentTenant column

record policy =
  policy_name :: string
  policy_table :: table
  using_expr :: policy_expr
  with_check :: "policy_expr option"

definition deny_all :: "string \<Rightarrow> table \<Rightarrow> policy" where
  "deny_all n t =
     \<lparr> policy_name = n, policy_table = t, using_expr = SqlFalse, with_check = Some SqlFalse \<rparr>"

definition policies :: "policy list" where
  "policies =
     [deny_all ''deny_all_tenants'' Tenants,
      deny_all ''deny_all_users'' Users,
      deny_all ''deny_all_auth_accounts'' AuthAccounts,
      deny_all ''deny_all_mailboxes'' Mailboxes,
      deny_all ''deny_all_tasklists'' Tasklists,
      deny_all ''deny_all_messages'' Messages,
      deny_all ''deny_all_routing_rules'' RoutingRules,
      deny_all ''deny_all_onboarding_sessions'' OnboardingSessions,
      deny_all ''deny_all_activity_logs'' ActivityLogs,
      \<lparr> policy_name = ''tenant_access_tenants'', policy_table = Tenants,
        using_expr = EqualsCurrentTenant Id, with_check = Some (EqualsCurrentTenant Id) \<rparr>,
      \<lparr> policy_name = ''tenant_access_users'', policy_table = Users,
        using_expr = EqualsCurrentTenant TenantId,
        with_check = Some (EqualsCurrentTenant TenantId) \<rparr>,
      \<lparr> policy_name = ''tenant_access_auth_accounts'', policy_table = AuthAccounts,
        using_expr = EqualsCurrentTenant TenantId,
        with_check = Some (EqualsCurrentTenant TenantId) \<rparr>,
      \<lparr> policy_name = ''tenant_access_mailboxes'', policy_table = Mailboxes,
        using_expr = EqualsCurrentTenant TenantId,
        with_check = Some (EqualsCurrentTenant TenantId) \<rparr>,
      \<lparr> policy_name = ''tenant_access_tasklists'', policy_table = Tasklists,
        using_expr = EqualsCurrentTenant TenantId,
        with_check = Some (EqualsCurrentTenant TenantId) \<rparr>,
      \<lparr> policy_name = ''tenant_access_messages'', policy_table = Messages,
        using_expr = EqualsCurrentTenant TenantId,
        with_check = Some (EqualsCurrentTenant TenantId) \<rparr>,
      \<lparr> policy_name = ''tenant_access_routing_rules'', policy_table = RoutingRules,
        using_expr = EqualsCurrentTenant TenantId,
        with_check = Some (EqualsCurrentTenant TenantId) \<rparr>,
      \<lparr> policy_name = ''tenant_access_onboarding_sessions'', policy_table = OnboardingSessions,
        using_expr = EqualsCurrentTenant TenantId,
        with_check = Some (EqualsCurrentTenant TenantId) \<rparr>,
      \<lparr> policy_name = ''tenant_access_activity_logs'', policy_table = ActivityLogs,
        using_expr = EqualsCurrentTenant TenantId, with_check = None \<rparr>]"

text \<open>
  A database session: the setting \<open>app.tenant_id\<close>, read as a uuid (never set; a
  text that is no uuid, such as the empty text that \<open>RESET\<close> and the end of a
  transaction with \<open>SET LOCAL\<close> leave; or a uuid), and whether row-level security
  applies to the session's role. It does not apply to a superuser, to a role with
  \<open>BYPASSRLS\<close> and to the owner of the tables, since the schema enables but does
  not force it.
\<close>

datatype tenant_setting = Unset | NotAUuid | CurrentTenant uuid

record session =
  app_tenant_id :: tenant_setting
  row_security :: bool

datatype sql_error =
    UnrecognizedParameter
  | InvalidUuidText
  | RowSecurityViolation
  | DatetimeOutOfRange

text \<open>
  PostgreSQL's evaluation. \<open>current_setting('app.tenant_id')::uuid\<close> does not depend
  on the row: it is evaluated for the statement, when the scan of the table is
  planned, so a setting that was never set and a text that is no uuid are errors that
  abort the statement whatever the table holds, also when it is empty. A policy
  expression therefore evaluates to an error or to a predicate on rows (a
  \<open>qual\<close>). The permissive policies of a table are combined with \<open>OR\<close>; a
  policy without \<open>WITH CHECK\<close> is checked with its \<open>USING\<close> expression. The
  policies come before the \<open>WHERE\<close> clause of the statement, which is a
  \<open>qual\<close> too. A row that fails \<open>USING\<close> is not seen by \<open>SELECT\<close>,
  \<open>UPDATE\<close> and \<open>DELETE\<close>; a new row that fails the check makes \<open>INSERT\<close>
  and \<open>UPDATE\<close> fail, and a statement that fails changes nothing.
\<close>

type_synonym qual = "sql_error + (row \<Rightarrow> bool)"

definition column_value :: "column \<Rightarrow> row \<Rightarrow> uuid" where
  "column_value c r = (case c of Id \<Rightarrow> row_id r | TenantId \<Rightarrow> tenant_id r)"

definition current_tenant :: "session \<Rightarrow> sql_error + uuid" where
  "current_tenant s =
     (case app_tenant_id s of
        Unset \<Rightarrow> Inl UnrecognizedParameter
      | NotAUuid \<Rightarrow> Inl InvalidUuidText
      | CurrentTenant u \<Rightarrow> Inr u)"

fun eval_expr :: "session \<Rightarrow> policy_expr \<Rightarrow> qual" where
  "eval_expr s SqlFalse = Inr (\<lambda>r. False)"
| "eval_expr s (EqualsCurrentTenant c) =
     (case current_tenant s of Inl e \<Rightarrow> Inl e | Inr u \<Rightarrow> Inr (\<lambda>r. column_value c r = u))"

fun any_permits :: "qual list \<Rightarrow> qual" where
  "any_permits [] = Inr (\<lambda>r. False)"
| "any_permits (Inl e # qs) = Inl e"
| "any_permits (Inr p # qs) =
     (case any_permits qs of Inl e \<Rightarrow> Inl e | Inr q \<Rightarrow> Inr (\<lambda>r. p r \<or> q r))"

definition table_policies :: "table \<Rightarrow> policy list" where
  "table_policies t = filter (\<lambda>p. policy_table p = t) policies"

definition check_expr :: "policy \<Rightarrow> policy_expr" where
  "check_expr p = (case with_check p of None \<Rightarrow> using_expr p | Some e \<Rightarrow> e)"

definition using_qual :: "session \<Rightarrow> table \<Rightarrow> qual" where
  "using_qual s t =
     (if row_security s
      then any_permits (map (eval_expr s) (map using_expr (table_policies t)))
      else Inr (\<lambda>r. True))"

definition check_qual :: "session \<Rightarrow> table \<Rightarrow> qual" where
  "check_qual s t =
     (if row_security s
      then any_permits (map (eval_expr s) (map check_expr (table_policies t)))
      else Inr (\<lambda>r. True))"

definition scan_qual :: "session \<Rightarrow> table \<Rightarrow> qual \<Rightarrow> qual" where
  "scan_qual s t wh =
     (case using_qual s t of
        Inl e \<Rightarrow> Inl e
      | Inr vis \<Rightarrow> (case wh of Inl e \<Rightarrow> Inl e | Inr c \<Rightarrow> Inr (\<lambda>r. vis r \<and> c r)))"

text \<open>
  The four statements on a table, given by its rows: the result is the rows selected,
  or the table after the statement.
\<close>

definition select_where :: "session \<Rightarrow> table \<Rightarrow> qual \<Rightarrow> row list \<Rightarrow> sql_error + row list" where
  "select_where s t wh rows =
     (case scan_qual s t wh of Inl e \<Rightarrow> Inl e | Inr q \<Rightarrow> Inr (filter q rows))"

definition insert_row :: "session \<Rightarrow> table \<Rightarrow> row \<Rightarrow> row list \<Rightarrow> sql_error + row list" where
  "insert_row s t r rows =
     (case check_qual s t of
        Inl e \<Rightarrow> Inl e
      | Inr ok \<Rightarrow> if ok r then Inr (rows @ [r]) else Inl RowSecurityViolation)"

definition update_where ::
  "session \<Rightarrow> table \<Rightarrow> qual \<Rightarrow> (row \<Rightarrow> row) \<Rightarrow> row list \<Rightarrow> sql_error + row list" where
  "update_where s t wh f rows =
     (case scan_qual s t wh of
        Inl e \<Rightarrow> Inl e
      | Inr q \<Rightarrow>
          (case check_qual s t of
             Inl e \<Rightarrow> Inl e
           | Inr ok \<Rightarrow>
               if list_all (\<lambda>r. ok (f r)) (filter q rows)
               then Inr (map (\<lambda>r. if q r then f r else r) rows)
               else Inl RowSecurityViolation))"

definition delete_where :: "session \<Rightarrow> table \<Rightarrow> qual \<Rightarrow> row list \<Rightarrow> sql_error + row list" where
  "delete_where s t wh rows =
     (case scan_qual s t wh of Inl e \<Rightarrow> Inl e | Inr q \<Rightarrow> Inr (filter (\<lambda>r. \<not> q r) rows))"

text \<open>
  \<open>prune_activity_logs(p_retention_days integer) RETURNS void\<close>. \<open>now\<close> is
  \<open>now()\<close>. The operator \<open>timestamptz - interval\<close> takes the days of the interval
  as calendar days in the time zone of the session: the local date goes back by that
  many days and the local time of day stays, so a day across a change of the zone's
  offset lasts 23 or 25 hours; a result outside the range of \<open>timestamptz\<close> is an
  error of SQLSTATE 22008 (\<open>timestamp out of range\<close>). The operator under the
  session's \<open>TimeZone\<close> is a parameter of the model. Of an interval the model keeps the days, the one field
  that \<open>make_interval(days => n)\<close> sets. The function runs with the rights of its
  caller, so its \<open>DELETE\<close> sees the rows the session sees. The result is the
  function's value, of type \<open>unit\<close> for \<open>void\<close>, and the table after the call.
\<close>

record interval =
  interval_day :: "32 word"

definition make_interval :: "32 word \<Rightarrow> interval" where
  "make_interval days = \<lparr> interval_day = days \<rparr>"

record time_zone =
  timestamptz_mi_interval :: "timestamptz \<Rightarrow> interval \<Rightarrow> sql_error + timestamptz"

definition cutoff :: "time_zone \<Rightarrow> timestamptz \<Rightarrow> 32 word \<Rightarrow> sql_error + timestamptz" where
  "cutoff tz now p_retention_days = timestamptz_mi_interval tz now (make_interval p_retention_days)"

definition created_before :: "sql_error + timestamptz \<Rightarrow> qual" where
  "created_before c = (case c of Inl e \<Rightarrow> Inl e | Inr c \<Rightarrow> Inr (\<lambda>r. created_at r < c))"

definition prune_activity_logs ::
  "time_zone \<Rightarrow> session \<Rightarrow> timestamptz \<Rightarrow> 32 word \<Rightarrow> row list \<Rightarrow> sql_error + unit \<times> row list" where
  "prune_activity_logs tz s now p_retention_days logs =
     (case delete_where s ActivityLogs (created_before (cutoff tz now p_retention_days)) logs of
        Inl e \<Rightarrow> Inl e
      | Inr logs' \<Rightarrow> Inr ((), logs'))"

text \<open>
  The time zone UTC, where every day has 86400 seconds. Timestamps are microseconds
  from 2000-01-01 00:00 UTC; the range of \<open>timestamptz\<close> begins with 4714-11-24 BC
  and ends before the year 294277.
\<close>

definition MIN_TIMESTAMP :: timestamptz where
  "MIN_TIMESTAMP = - 211813488000000000"

definition END_TIMESTAMP :: timestamptz where
  "END_TIMESTAMP = 9223371331200000000"

definition USECS_PER_DAY :: int where
  "USECS_PER_DAY = 86400000000"

definition UTC :: time_zone where
  "UTC =
     \<lparr> timestamptz_mi_interval = (\<lambda>t span.
         let c = t - sint (interval_day span) * USECS_PER_DAY
         in if c < MIN_TIMESTAMP \<or> END_TIMESTAMP \<le> c then Inl DatetimeOutOfRange else Inr c) \<rparr>"

subsection \<open>Tenant isolation\<close>

text \<open>
  The column that the tenant policy of a table compares with the setting.
\<close>

definition tenant_column :: "table \<Rightarrow> column" where
  "tenant_column t = (if t = Tenants then Id else TenantId)"

lemma table_policies_eq:
  "map using_expr (table_policies t) = [SqlFalse, EqualsCurrentTenant (tenant_column t)]"
  "map check_expr (table_policies t) = [SqlFalse, EqualsCurrentTenant (tenant_column t)]"
  by (cases t; simp add: table_policies_def policies_def deny_all_def tenant_column_def check_expr_def)+

lemma using_qual_scoped:
  "row_security s \<Longrightarrow> app_tenant_id s = CurrentTenant a \<Longrightarrow>
   using_qual s t = Inr (\<lambda>r. column_value (tenant_column t) r = a)"
  by (simp add: using_qual_def table_policies_eq current_tenant_def)


lemma quals_denied:
  "row_security s \<Longrightarrow> current_tenant s = Inl e \<Longrightarrow> using_qual s t = Inl e"
  "row_security s \<Longrightarrow> current_tenant s = Inl e \<Longrightarrow> check_qual s t = Inl e"
  by (simp_all add: using_qual_def check_qual_def table_policies_eq)

lemma quals_unrestricted:
  "\<not> row_security s \<Longrightarrow> using_qual s t = Inr (\<lambda>r. True)"
  "\<not> row_security s \<Longrightarrow> check_qual s t = Inr (\<lambda>r. True)"
  by (simp_all add: using_qual_def check_qual_def)




lemma statements_denied:
  assumes "row_security s" "current_tenant s = Inl e"
  shows "select_where s t wh rows = Inl e" "insert_row s t new rows = Inl e"
    "update_where s t wh f rows = Inl e" "delete_where s t wh rows = Inl e"
  by (simp_all add: select_where_def insert_row_def update_where_def delete_where_def
        scan_qual_def quals_denied [OF assms])





subsection \<open>Retention\<close>

lemma prune_unrestricted:
  "\<not> row_security s \<Longrightarrow>
   prune_activity_logs tz s now days logs =
     (case cutoff tz now days of
        Inl e \<Rightarrow> Inl e
      | Inr c \<Rightarrow> Inr ((), filter (\<lambda>r. c \<le> created_at r) logs))"
  by (simp add: prune_activity_logs_def delete_where_def scan_qual_def quals_unrestricted
        created_before_def not_less split: sum.splits)

lemma prune_scoped:
  "row_security s \<Longrightarrow> app_tenant_id s = CurrentTenant a \<Longrightarrow>
   prune_activity_logs tz s now days logs =
     (case cutoff tz now days of
        Inl e \<Rightarrow> Inl e
      | Inr c \<Rightarrow> Inr ((), filter (\<lambda>r. tenant_id r \<noteq> a \<or> c \<le> created_at r) logs))"
  by (simp add: prune_activity_logs_def delete_where_def scan_qual_def using_qual_scoped
        created_before_def not_less column_value_def tenant_column_def split: sum.splits)

lemma prune_denied:
  "row_security s \<Longrightarrow> current_tenant s = Inl e \<Longrightarrow>
   prune_activity_logs tz s now days logs = Inl e"
  by (simp add: prune_activity_logs_def statements_denied)

lemma prune_succeeds:
  assumes "prune_activity_logs tz s now days logs = Inr ((), kept)"
  obtains c where "cutoff tz now days = Inr c" "\<not> row_security s"
      "kept = filter (\<lambda>r. c \<le> created_at r) logs"
    | c a where "cutoff tz now days = Inr c" "row_security s" "app_tenant_id s = CurrentTenant a"
      "kept = filter (\<lambda>r. tenant_id r \<noteq> a \<or> c \<le> created_at r) logs"
proof (cases "row_security s")
  case False
  with assms that(1) show ?thesis
    by (auto simp add: prune_unrestricted split: sum.splits)
next
  case True
  show ?thesis
  proof (cases "app_tenant_id s")
    case (CurrentTenant a)
    with assms True that(2) show ?thesis
      by (auto simp add: prune_scoped split: sum.splits)
  next
    case Unset
    then have "current_tenant s = Inl UnrecognizedParameter"
      by (simp add: current_tenant_def)
    from prune_denied [OF True this] assms show ?thesis
      by simp
  next
    case NotAUuid
    then have "current_tenant s = Inl InvalidUuidText"
      by (simp add: current_tenant_def)
    from prune_denied [OF True this] assms show ?thesis
      by simp
  qed
qed

text \<open>
  Claim C7, as amended. \<open>prune_activity_logs\<close> deletes exactly the rows that the
  calling session sees and that were created strictly before the cutoff
  \<open>now - p_retention_days\<close>, and leaves every other row untouched: in a
  maintenance session (one to which row-level security does not apply) these are all
  the rows older than the cutoff, in a session under row-level security the rows of
  the session's tenant that are older. It returns nothing (\<open>void\<close>). It fails, and
  deletes nothing, when the cutoff is no valid timestamp and when, under row-level
  security, the tenant setting is unset or no uuid. Called again after a call that
  succeeded, at the same time or at any time at which no remaining row is older than
  the cutoff, it deletes no row. In the time zone UTC the cutoff is \<open>now\<close> less
  \<open>p_retention_days\<close> times 86400 seconds.
\<close>

theorem prune_deletes_older_rows:
  "(\<not> row_security s \<longrightarrow>
      prune_activity_logs tz s now days logs =
        (case cutoff tz now days of
           Inl e \<Rightarrow> Inl e
         | Inr c \<Rightarrow> Inr ((), filter (\<lambda>r. c \<le> created_at r) logs))) \<and>
   (row_security s \<and> app_tenant_id s = CurrentTenant a \<longrightarrow>
      prune_activity_logs tz s now days logs =
        (case cutoff tz now days of
           Inl e \<Rightarrow> Inl e
         | Inr c \<Rightarrow> Inr ((), filter (\<lambda>r. tenant_id r \<noteq> a \<or> c \<le> created_at r) logs))) \<and>
   (row_security s \<and> app_tenant_id s = Unset \<longrightarrow>
      prune_activity_logs tz s now days logs = Inl UnrecognizedParameter) \<and>
   (row_security s \<and> app_tenant_id s = NotAUuid \<longrightarrow>
      prune_activity_logs tz s now days logs = Inl InvalidUuidText) \<and>
   (\<forall>kept. prune_activity_logs tz s now days logs = Inr ((), kept) \<longrightarrow>
      prune_activity_logs tz s now days kept = Inr ((), kept) \<and>
      (\<forall>later c'. cutoff tz later days = Inr c' \<and> list_all (\<lambda>r. c' \<le> created_at r) kept \<longrightarrow>
         prune_activity_logs tz s later days kept = Inr ((), kept))) \<and>
   cutoff UTC now days =
     (if now - sint days * 86400000000 < - 211813488000000000 \<or>
         9223371331200000000 \<le> now - sint days * 86400000000
      then Inl DatetimeOutOfRange
      else Inr (now - sint days * 86400000000))"
proof (intro conjI impI allI)
  show "prune_activity_logs tz s now days logs =
        (case cutoff tz now days of
           Inl e \<Rightarrow> Inl e
         | Inr c \<Rightarrow> Inr ((), filter (\<lambda>r. c \<le> created_at r) logs))"
    if "\<not> row_security s"
    using that by (rule prune_unrestricted)
  show "prune_activity_logs tz s now days logs =
        (case cutoff tz now days of
           Inl e \<Rightarrow> Inl e
         | Inr c \<Rightarrow> Inr ((), filter (\<lambda>r. tenant_id r \<noteq> a \<or> c \<le> created_at r) logs))"
    if "row_security s \<and> app_tenant_id s = CurrentTenant a"
    using that by (simp add: prune_scoped)
  show "prune_activity_logs tz s now days logs = Inl UnrecognizedParameter"
    if "row_security s \<and> app_tenant_id s = Unset"
    using that by (simp add: prune_denied current_tenant_def)
  show "prune_activity_logs tz s now days logs = Inl InvalidUuidText"
    if "row_security s \<and> app_tenant_id s = NotAUuid"
    using that by (simp add: prune_denied current_tenant_def)
  show "cutoff UTC now days =
     (if now - sint days * 86400000000 < - 211813488000000000 \<or>
         9223371331200000000 \<le> now - sint days * 86400000000
      then Inl DatetimeOutOfRange
      else Inr (now - sint days * 86400000000))"
    by (simp add: cutoff_def UTC_def make_interval_def USECS_PER_DAY_def MIN_TIMESTAMP_def
          END_TIMESTAMP_def Let_def)
next
  fix kept
  assume p: "prune_activity_logs tz s now days logs = Inr ((), kept)"
  show "prune_activity_logs tz s now days kept = Inr ((), kept)"
    using p by (rule prune_succeeds) (simp_all add: prune_unrestricted prune_scoped)
next
  fix kept later c'
  assume p: "prune_activity_logs tz s now days logs = Inr ((), kept)"
    and l: "cutoff tz later days = Inr c' \<and> list_all (\<lambda>r. c' \<le> created_at r) kept"
  then have i: "filter (\<lambda>r. c' \<le> created_at r) kept = kept"
    by (simp add: filter_id_conv list_all_iff)
  from p show "prune_activity_logs tz s later days kept = Inr ((), kept)"
  proof (rule prune_succeeds)
    assume "\<not> row_security s"
    then show ?thesis
      by (simp add: prune_unrestricted l i)
  next
    fix b
    assume "row_security s" "app_tenant_id s = CurrentTenant b"
    then show ?thesis
      using l by (auto simp add: prune_scoped filter_id_conv list_all_iff)
  qed
qed

theorem prune_deletes_older_rows_witness:
  "cutoff UTC 1000000000000 30 = Inr (- 1592000000000) \<and>
   prune_activity_logs UTC \<lparr> app_tenant_id = Unset, row_security = False \<rparr> 1000000000000 30
     [\<lparr> row_id = 1, tenant_id = 1, created_at = - 1592000000001 \<rparr>,
      \<lparr> row_id = 2, tenant_id = 2, created_at = - 1592000000000 \<rparr>,
      \<lparr> row_id = 3, tenant_id = 1, created_at = 5 \<rparr>]
     = Inr ((), [\<lparr> row_id = 2, tenant_id = 2, created_at = - 1592000000000 \<rparr>,
                 \<lparr> row_id = 3, tenant_id = 1, created_at = 5 \<rparr>]) \<and>
   prune_activity_logs UTC \<lparr> app_tenant_id = Unset, row_security = False \<rparr> 1000000000000 30
     [\<lparr> row_id = 2, tenant_id = 2, created_at = - 1592000000000 \<rparr>,
      \<lparr> row_id = 3, tenant_id = 1, created_at = 5 \<rparr>]
     = Inr ((), [\<lparr> row_id = 2, tenant_id = 2, created_at = - 1592000000000 \<rparr>,
                 \<lparr> row_id = 3, tenant_id = 1, created_at = 5 \<rparr>]) \<and>
   prune_activity_logs UTC \<lparr> app_tenant_id = CurrentTenant 1, row_security = True \<rparr>
     1000000000000 30
     [\<lparr> row_id = 1, tenant_id = 1, created_at = - 1592000000001 \<rparr>,
      \<lparr> row_id = 4, tenant_id = 2, created_at = - 1592000000001 \<rparr>]
     = Inr ((), [\<lparr> row_id = 4, tenant_id = 2, created_at = - 1592000000001 \<rparr>]) \<and>
   prune_activity_logs UTC \<lparr> app_tenant_id = Unset, row_security = False \<rparr> 1000000000000 2451557
     [\<lparr> row_id = 1, tenant_id = 1, created_at = - 1592000000001 \<rparr>]
     = Inl DatetimeOutOfRange \<and>
   prune_activity_logs UTC \<lparr> app_tenant_id = Unset, row_security = True \<rparr> 1000000000000 30 []
     = Inl UnrecognizedParameter"
proof -
  have c: "cutoff UTC 1000000000000 30 = Inr (- 1592000000000)"
    "cutoff UTC 1000000000000 2451557 = Inl DatetimeOutOfRange"
    by (simp_all add: cutoff_def UTC_def make_interval_def USECS_PER_DAY_def MIN_TIMESTAMP_def
          END_TIMESTAMP_def)
  show ?thesis
    using
      prune_deletes_older_rows [where tz = UTC
        and s = "\<lparr> app_tenant_id = Unset, row_security = False \<rparr>"
        and now = 1000000000000 and days = 30
        and logs = "[\<lparr> row_id = 1, tenant_id = 1, created_at = - 1592000000001 \<rparr>,
                     \<lparr> row_id = 2, tenant_id = 2, created_at = - 1592000000000 \<rparr>,
                     \<lparr> row_id = 3, tenant_id = 1, created_at = 5 \<rparr>]"]
      prune_deletes_older_rows [where tz = UTC
        and s = "\<lparr> app_tenant_id = CurrentTenant 1, row_security = True \<rparr>" and a = 1
        and now = 1000000000000 and days = 30
        and logs = "[\<lparr> row_id = 1, tenant_id = 1, created_at = - 1592000000001 \<rparr>,
                     \<lparr> row_id = 4, tenant_id = 2, created_at = - 1592000000001 \<rparr>]"]
      prune_deletes_older_rows [where tz = UTC
        and s = "\<lparr> app_tenant_id = Unset, row_security = False \<rparr>"
        and now = 1000000000000 and days = 2451557
        and logs = "[\<lparr> row_id = 1, tenant_id = 1, created_at = - 1592000000001 \<rparr>]"]
      prune_deletes_older_rows [where tz = UTC
        and s = "\<lparr> app_tenant_id = Unset, row_security = True \<rparr>"
        and now = 1000000000000 and days = 30 and logs = "[]"]
    by (simp add: c)
qed

text \<open>
  The claim as stated fails in what the function returns: in a maintenance session one
  row is deleted, and the value returned is \<open>()\<close>, not the count 1. It fails in the
  rows deleted when the session is under row-level security: in a session of tenant
  1 a row of tenant 2 that is older than the cutoff stays. And with a window of
  2451557 days the cutoff is before the first timestamp: the function fails, and the
  row, which is older than any such cutoff, stays.
\<close>

theorem prune_returns_void_counterexample:
  "prune_activity_logs UTC \<lparr> app_tenant_id = Unset, row_security = False \<rparr> 1000000000000 30
     [\<lparr> row_id = 1, tenant_id = 1, created_at = - 1592000000001 \<rparr>,
      \<lparr> row_id = 3, tenant_id = 1, created_at = 5 \<rparr>]
   = Inr ((), [\<lparr> row_id = 3, tenant_id = 1, created_at = 5 \<rparr>]) \<and>
   prune_activity_logs UTC \<lparr> app_tenant_id = CurrentTenant 1, row_security = True \<rparr>
     1000000000000 30
     [\<lparr> row_id = 4, tenant_id = 2, created_at = - 1592000000001 \<rparr>]
   = Inr ((), [\<lparr> row_id = 4, tenant_id = 2, created_at = - 1592000000001 \<rparr>]) \<and>
   prune_activity_logs UTC \<lparr> app_tenant_id = Unset, row_security = False \<rparr> 1000000000000 2451557
     [\<lparr> row_id = 1, tenant_id = 1, created_at = - 1592000000001 \<rparr>]
   = Inl DatetimeOutOfRange"
proof -
  have c: "cutoff UTC 1000000000000 30 = Inr (- 1592000000000)"
    "cutoff UTC 1000000000000 2451557 = Inl DatetimeOutOfRange"
    by (simp_all add: cutoff_def UTC_def make_interval_def USECS_PER_DAY_def MIN_TIMESTAMP_def
          END_TIMESTAMP_def)
  have t: "current_tenant \<lparr> app_tenant_id = CurrentTenant 1, row_security = True \<rparr> = Inr 1"
    by (simp add: current_tenant_def)
  show ?thesis
    by (simp add: prune_activity_logs_def delete_where_def scan_qual_def using_qual_def
          table_policies_eq t c created_before_def column_value_def tenant_column_def)
qed

section \<open>Configuration: the schema and its validation\<close>

text \<open>
  The validators of the \<open>zod\<close> library that are not defined by the source are
  parameters of the model: which strings \<open>z.string().url()\<close> and
  \<open>z.string().email()\<close> accept, and the number that \<open>z.coerce.number()\<close> makes
  of a string (JavaScript's \<open>Number(v)\<close>).
\<close>

datatype js_number = NaN | PosInfinity | NegInfinity | Finite rat

record zod_lib =
  is_url :: "jsstring \<Rightarrow> bool"
  is_email :: "jsstring \<Rightarrow> bool"
  to_number :: "jsstring \<Rightarrow> js_number"

text \<open>
  An issue of \<open>safeParse\<close>: the path (the name of the variable) and the rule that
  failed. The error thrown after a failed \<open>safeParse\<close> joins one line
  \<open>path: message\<close> per issue.
\<close>

datatype issue_kind =
    Required
  | TooSmall
  | TooBig
  | NotANumber
  | NotAnInteger
  | InvalidUrl
  | InvalidEmail
  | InvalidEnumValue
  | NotBase64Key32

type_synonym issue = "string \<times> issue_kind"

text \<open>
  The regular expression \<open>/^\+\d{7,15}$/\<close>: a plus sign and 7 to 15 decimal digits.
\<close>

definition e164 :: "jsstring \<Rightarrow> bool" where
  "e164 s =
     (case s of
        [] \<Rightarrow> False
      | c # ds \<Rightarrow> c = 0x2B \<and> 7 \<le> length ds \<and> length ds \<le> 15 \<and> list_all is_digit ds)"

text \<open>
  The field schemas. Each gives the issues of one variable's value. An unset variable
  is \<open>Required\<close> unless the schema is optional or has a default; \<open>.default(d)\<close>
  validates \<open>d\<close> in place of an unset value; the checks of a number and the
  refinement after \<open>.min(1)\<close> each add their own issue.
\<close>

definition string_min1 :: "jsstring option \<Rightarrow> issue_kind list" where
  "string_min1 v =
     (case v of None \<Rightarrow> [Required] | Some s \<Rightarrow> if length s < 1 then [TooSmall] else [])"

definition urlSchema :: "zod_lib \<Rightarrow> jsstring option \<Rightarrow> issue_kind list" where
  "urlSchema lib v =
     (case v of None \<Rightarrow> [Required] | Some s \<Rightarrow> if is_url lib s then [] else [InvalidUrl])"

definition base64Key32 :: "jsstring option \<Rightarrow> issue_kind list" where
  "base64Key32 v =
     (case v of
        None \<Rightarrow> [Required]
      | Some s \<Rightarrow>
          (if length s < 1 then [TooSmall] else []) @
          (if length (base64_decode s) = 32 then [] else [NotBase64Key32]))"

definition number_is_int :: "js_number \<Rightarrow> bool" where
  "number_is_int n = (case n of Finite q \<Rightarrow> of_int \<lfloor>q\<rfloor> = q | _ \<Rightarrow> False)"

definition number_less :: "js_number \<Rightarrow> rat \<Rightarrow> bool" where
  "number_less n b = (case n of Finite q \<Rightarrow> q < b | NegInfinity \<Rightarrow> True | _ \<Rightarrow> False)"

definition number_greater :: "js_number \<Rightarrow> rat \<Rightarrow> bool" where
  "number_greater n b = (case n of Finite q \<Rightarrow> b < q | PosInfinity \<Rightarrow> True | _ \<Rightarrow> False)"

definition coerce_int :: "zod_lib \<Rightarrow> rat \<Rightarrow> rat option \<Rightarrow> jsstring option \<Rightarrow> issue_kind list" where
  "coerce_int lib lo hi v =
     (case v of
        None \<Rightarrow> []
      | Some s \<Rightarrow>
          (let n = to_number lib s
           in if n = NaN then [NotANumber]
              else (if number_is_int n then [] else [NotAnInteger]) @
                   (if number_less n lo then [TooSmall] else []) @
                   (case hi of
                      None \<Rightarrow> []
                    | Some h \<Rightarrow> if number_greater n h then [TooBig] else [])))"

definition log_levels :: "jsstring list" where
  "log_levels = [js ''trace'', js ''debug'', js ''info'', js ''warn'', js ''error'']"

definition enum_default :: "jsstring list \<Rightarrow> jsstring option \<Rightarrow> issue_kind list" where
  "enum_default allowed v =
     (case v of None \<Rightarrow> [] | Some s \<Rightarrow> if s \<in> set allowed then [] else [InvalidEnumValue])"

definition email_schema :: "zod_lib \<Rightarrow> jsstring option \<Rightarrow> issue_kind list" where
  "email_schema lib v =
     (case v of None \<Rightarrow> [Required] | Some s \<Rightarrow> if is_email lib s then [] else [InvalidEmail])"

definition any_string :: "jsstring option \<Rightarrow> issue_kind list" where
  "any_string v = []"

definition with_default :: "jsstring \<Rightarrow> jsstring option \<Rightarrow> jsstring option" where
  "with_default d v = (case v of None \<Rightarrow> Some d | Some s \<Rightarrow> Some s)"

text \<open>
  The object schema, in the order of the source. \<open>object_issues\<close> collects the
  issues of all fields, as \<open>z.object\<close> does.
\<close>

definition schema_fields :: "zod_lib \<Rightarrow> (string \<times> (jsstring option \<Rightarrow> issue_kind list)) list" where
  "schema_fields lib =
     [(''PORT'', coerce_int lib 1 (Some 65535)),
      (''APP_BASE_URL'', \<lambda>v. urlSchema lib (with_default (js ''http://localhost:4000'') v)),
      (''LOG_LEVEL'', enum_default log_levels),
      (''CORS_ORIGIN'', any_string),
      (''DATABASE_URL'', string_min1),
      (''TOKEN_ENCRYPTION_KEY'', base64Key32),
      (''TOKEN_ENCRYPTION_KEY_ID'', string_min1),
      (''RETENTION_DAYS'', coerce_int lib 1 None),
      (''GOOGLE_PROJECT_ID'', string_min1),
      (''GOOGLE_OAUTH_CLIENT_ID'', string_min1),
      (''GOOGLE_OAUTH_CLIENT_SECRET'', string_min1),
      (''GOOGLE_OAUTH_REDIRECT_URI'', urlSchema lib),
      (''GOOGLE_APPLICATION_CREDENTIALS'', any_string),
      (''GMAIL_SCOPES'', any_string),
      (''TASKS_SCOPES'', any_string),
      (''PUSH_ENDPOINT_PATH'', any_string),
      (''PUBSUB_TOPIC'', string_min1),
      (''PUBSUB_SUBSCRIPTION'', string_min1),
      (''PUBSUB_OIDC_AUDIENCE'', any_string),
      (''PUBSUB_SERVICE_ACCOUNT_EMAIL'', email_schema lib),
      (''PUBSUB_PROJECT_NUMBER'', any_string),
      (''PUBSUB_VERIFICATION_TOKEN'', any_string),
      (''OPENAI_API_KEY'', any_string),
      (''OPENAI_MODEL'', any_string),
      (''OPENAI_API_BASE'', any_string),
      (''TWILIO_ACCOUNT_SID'', any_string),
      (''TWILIO_AUTH_TOKEN'', any_string),
      (''TWILIO_MESSAGING_SERVICE_SID'', any_string),
      (''TWILIO_FROM_NUMBER'', any_string),
      (''TWILIO_DEFAULT_SMS_TO'', any_string),
      (''ALLOW_DEFAULT_SMS_TO_IN_PROD'', any_string),
      (''TWILIO_WEBHOOK_SECRET'', any_string),
      (''FEATURE_ENABLE_SMS'', any_string),
      (''FEATURE_ENABLE_TASKS'', any_string),
      (''FEATURE_ENABLE_PUSH'', any_string),
      (''FEATURE_ENABLE_CLASSIFIER'', any_string)]"

definition field_issues :: "process_env \<Rightarrow> string \<times> (jsstring option \<Rightarrow> issue_kind list) \<Rightarrow> issue list" where
  "field_issues env f = map (\<lambda>k. (fst f, k)) (snd f (env (fst f)))"

definition object_issues :: "zod_lib \<Rightarrow> process_env \<Rightarrow> issue list" where
  "object_issues lib env = concat (map (field_issues env) (schema_fields lib))"


text \<open>
  \<open>String.prototype.trim\<close> and \<open>split(',')\<close>, for \<open>splitCsv\<close> and the scopes.
\<close>

definition is_space :: "16 word \<Rightarrow> bool" where
  "is_space c =
     (c \<in> set [0x09, 0x0A, 0x0B, 0x0C, 0x0D, 0x20, 0xA0, 0x1680, 0x2028, 0x2029, 0x202F,
                0x205F, 0x3000, 0xFEFF] \<or> (0x2000 \<le> c \<and> c \<le> 0x200A))"

definition trim :: "jsstring \<Rightarrow> jsstring" where
  "trim s = rev (dropWhile is_space (rev (dropWhile is_space s)))"

fun split_on :: "16 word \<Rightarrow> jsstring \<Rightarrow> jsstring list" where
  "split_on d [] = [[]]"
| "split_on d (c # cs) =
     (if c = d then [] # split_on d cs
      else (case split_on d cs of [] \<Rightarrow> [[c]] | x # xs \<Rightarrow> (c # x) # xs))"

definition splitCsv :: "jsstring option \<Rightarrow> jsstring list \<Rightarrow> jsstring list" where
  "splitCsv v fallback =
     (case v of
        None \<Rightarrow> fallback
      | Some s \<Rightarrow> if s \<noteq> [] \<and> length (trim s) > 0 then map trim (split_on 0x2C s) else fallback)"

text \<open>
  The configuration object that the transform returns.
\<close>

record app_config =
  port :: js_number
  baseUrl :: jsstring
  corsOrigins :: "jsstring list"
  logLevel :: jsstring

record db_config =
  db_url :: jsstring
  retentionDays :: js_number

record security_config =
  tokenKeyB64 :: jsstring
  tokenKeyId :: jsstring

record google_config =
  projectId :: jsstring
  oauth_clientId :: jsstring
  oauth_clientSecret :: jsstring
  oauth_redirectUri :: jsstring
  adcPath :: "jsstring option"
  scopes_gmail :: "jsstring list"
  scopes_tasks :: "jsstring list"

record oidc_config =
  issuer :: jsstring
  oidc_audience :: jsstring
  serviceAccountEmail :: jsstring
  projectNumber :: "jsstring option"
  verificationToken :: "jsstring option"

record pubsub_config =
  topic :: jsstring
  subscription :: jsstring
  oidc :: oidc_config
  pushPath :: jsstring
  audience :: jsstring

record openai_config =
  apiKey :: "jsstring option"
  model :: jsstring
  apiBase :: "jsstring option"

record twilio_config =
  accountSid :: "jsstring option"
  authToken :: "jsstring option"
  messagingServiceSid :: "jsstring option"
  fromNumber :: "jsstring option"
  defaultSmsTo :: "jsstring option"
  webhookSecret :: "jsstring option"

record config =
  config_env :: jsstring
  config_isDevelopment :: bool
  config_isTest :: bool
  config_isProduction :: bool
  app :: app_config
  db :: db_config
  security :: security_config
  google :: google_config
  pubsub :: pubsub_config
  openai :: openai_config
  twilio :: twilio_config
  config_features :: features

text \<open>
  What makes the module throw: the aggregated error after a failed \<open>safeParse\<close>,
  one of the \<open>Error\<close>s thrown inside the transform, or the \<open>ZodError\<close> of
  \<open>e164.parse\<close> there. Nothing inside \<open>safeParse\<close> catches what the transform
  throws, so each leaves the module as it is.
\<close>

datatype config_error =
    ValidationFailed "issue list"
  | ClassifierKeyRequired
  | TwilioCredentialsRequired
  | ExactlyOneSenderRequired
  | InvalidE164 string
  | DefaultSmsToInProduction
  | AdcRequired

definition or_default :: "jsstring option \<Rightarrow> jsstring \<Rightarrow> jsstring" where
  "or_default v d = (case v of None \<Rightarrow> d | Some s \<Rightarrow> s)"

text \<open>
  The conditional requirements of the transform, in the order of the source. Each
  returns the error it throws, if any. \<open>check_sms\<close> holds the body of
  \<open>if (features.sms)\<close>; its last part, on the default recipient, is
  \<open>check_default_sms_to\<close>.
\<close>

definition check_classifier :: "features \<Rightarrow> process_env \<Rightarrow> config_error option" where
  "check_classifier f env =
     (if classifier f \<and> \<not> truthy (env ''OPENAI_API_KEY'') then Some ClassifierKeyRequired
      else None)"

definition check_default_sms_to :: "bool \<Rightarrow> process_env \<Rightarrow> config_error option" where
  "check_default_sms_to production env =
     (if production then
        (let allowDevTo = boolFromEnv (env ''ALLOW_DEFAULT_SMS_TO_IN_PROD'') False
         in if truthy (env ''TWILIO_DEFAULT_SMS_TO'') \<and> \<not> allowDevTo
            then Some DefaultSmsToInProduction else None)
      else if truthy (env ''TWILIO_DEFAULT_SMS_TO'')
              \<and> \<not> e164 (or_default (env ''TWILIO_DEFAULT_SMS_TO'') [])
           then Some (InvalidE164 ''TWILIO_DEFAULT_SMS_TO'')
           else None)"

definition check_sms :: "bool \<Rightarrow> features \<Rightarrow> process_env \<Rightarrow> config_error option" where
  "check_sms production f env =
     (if sms f then
        (if \<not> truthy (env ''TWILIO_ACCOUNT_SID'') \<or> \<not> truthy (env ''TWILIO_AUTH_TOKEN'')
         then Some TwilioCredentialsRequired
         else
           (let hasService = truthy (env ''TWILIO_MESSAGING_SERVICE_SID'');
                hasFrom = truthy (env ''TWILIO_FROM_NUMBER'')
            in if (hasService \<and> hasFrom) \<or> (\<not> hasService \<and> \<not> hasFrom)
               then Some ExactlyOneSenderRequired
               else if hasFrom \<and> \<not> e164 (or_default (env ''TWILIO_FROM_NUMBER'') [])
               then Some (InvalidE164 ''TWILIO_FROM_NUMBER'')
               else check_default_sms_to production env))
      else None)"

definition check_push :: "bool \<Rightarrow> features \<Rightarrow> process_env \<Rightarrow> config_error option" where
  "check_push dev f env =
     (if push f \<and> dev \<and> \<not> truthy (env ''GOOGLE_APPLICATION_CREDENTIALS'')
      then Some AdcRequired else None)"

definition build_config :: "zod_lib \<Rightarrow> process_env \<Rightarrow> process_env \<Rightarrow> config" where
  "build_config lib penv env =
     (let cors = splitCsv (with_default (js ''http://localhost:5173'') (env ''CORS_ORIGIN''))
                   [js ''http://localhost:5173''];
          base = or_default (env ''APP_BASE_URL'') (js ''http://localhost:4000'');
          path = or_default (env ''PUSH_ENDPOINT_PATH'') (js ''/api/pubsub/push'');
          aud = or_default (env ''PUBSUB_OIDC_AUDIENCE'') (base @ path)
      in \<lparr> config_env =
             (if truthy (env ''NODE_ENV'') then or_default (env ''NODE_ENV'') []
              else js ''development''),
           config_isDevelopment = isDevelopment penv,
           config_isTest = isTest penv,
           config_isProduction = isProduction penv,
           app = \<lparr> port = (case env ''PORT'' of None \<Rightarrow> Finite 4000 | Some s \<Rightarrow> to_number lib s),
                   baseUrl = base,
                   corsOrigins = cors,
                   logLevel = or_default (env ''LOG_LEVEL'') (js ''info'') \<rparr>,
           db = \<lparr> db_url = or_default (env ''DATABASE_URL'') [],
                  retentionDays =
                    (case env ''RETENTION_DAYS'' of
                       None \<Rightarrow> Finite 180 | Some s \<Rightarrow> to_number lib s) \<rparr>,
           security = \<lparr> tokenKeyB64 = or_default (env ''TOKEN_ENCRYPTION_KEY'') [],
                        tokenKeyId = or_default (env ''TOKEN_ENCRYPTION_KEY_ID'') [] \<rparr>,
           google = \<lparr> projectId = or_default (env ''GOOGLE_PROJECT_ID'') [],
                      oauth_clientId = or_default (env ''GOOGLE_OAUTH_CLIENT_ID'') [],
                      oauth_clientSecret = or_default (env ''GOOGLE_OAUTH_CLIENT_SECRET'') [],
                      oauth_redirectUri = or_default (env ''GOOGLE_OAUTH_REDIRECT_URI'') [],
                      adcPath = env ''GOOGLE_APPLICATION_CREDENTIALS'',
                      scopes_gmail =
                        map trim (split_on 0x2C (or_default (env ''GMAIL_SCOPES'')
                          (js ''https://www.googleapis.com/auth/gmail.modify''))),
                      scopes_tasks =
                        map trim (split_on 0x2C (or_default (env ''TASKS_SCOPES'')
                          (js ''https://www.googleapis.com/auth/tasks''))) \<rparr>,
           pubsub = \<lparr> topic = or_default (env ''PUBSUB_TOPIC'') [],
                      subscription = or_default (env ''PUBSUB_SUBSCRIPTION'') [],
                      oidc = \<lparr> issuer = js ''https://accounts.google.com'',
                               oidc_audience = aud,
                               serviceAccountEmail = or_default (env ''PUBSUB_SERVICE_ACCOUNT_EMAIL'') [],
                               projectNumber = env ''PUBSUB_PROJECT_NUMBER'',
                               verificationToken =
                                 (if isDevelopment penv then env ''PUBSUB_VERIFICATION_TOKEN''
                                  else None) \<rparr>,
                      pushPath = path,
                      audience = aud \<rparr>,
           openai = \<lparr> apiKey = env ''OPENAI_API_KEY'',
                      model = or_default (env ''OPENAI_MODEL'') (js ''gpt-4o''),
                      apiBase = env ''OPENAI_API_BASE'' \<rparr>,
           twilio = \<lparr> accountSid = env ''TWILIO_ACCOUNT_SID'',
                      authToken = env ''TWILIO_AUTH_TOKEN'',
                      messagingServiceSid = env ''TWILIO_MESSAGING_SERVICE_SID'',
                      fromNumber = env ''TWILIO_FROM_NUMBER'',
                      defaultSmsTo = env ''TWILIO_DEFAULT_SMS_TO'',
                      webhookSecret = env ''TWILIO_WEBHOOK_SECRET'' \<rparr>,
           config_features = compute_features (isDevelopment penv) env \<rparr>)"

definition transform :: "zod_lib \<Rightarrow> process_env \<Rightarrow> process_env \<Rightarrow> config_error + config" where
  "transform lib penv env =
     (let f = compute_features (isDevelopment penv) env
      in case check_classifier f env of
           Some e \<Rightarrow> Inl e
         | None \<Rightarrow>
             (case check_sms (isProduction penv) f env of
                Some e \<Rightarrow> Inl e
              | None \<Rightarrow>
                  (case check_push (isDevelopment penv) f env of
                     Some e \<Rightarrow> Inl e
                   | None \<Rightarrow> Inr (build_config lib penv env))))"

text \<open>
  \<open>schema.safeParse(process.env)\<close> and the lines after it: the transform runs only
  when no field has an issue. \<open>penv\<close> is \<open>process.env\<close> when the module starts,
  from which the mode is read; \<open>env\<close> is \<open>process.env\<close> when it is parsed. In
  development the module first loads \<open>.env.local\<close> and \<open>.env\<close>, each given by the
  variables it assigns when the file exists; a file sets the variables that are not
  set yet.
\<close>

definition load_config :: "zod_lib \<Rightarrow> process_env \<Rightarrow> process_env \<Rightarrow> config_error + config" where
  "load_config lib penv env =
     (let issues = object_issues lib env
      in if issues \<noteq> [] then Inl (ValidationFailed issues) else transform lib penv env)"

definition dotenv_config :: "process_env option \<Rightarrow> process_env \<Rightarrow> process_env" where
  "dotenv_config file env =
     (case file of
        None \<Rightarrow> env
      | Some parsed \<Rightarrow> (\<lambda>k. case env k of Some v \<Rightarrow> Some v | None \<Rightarrow> parsed k))"

definition config_module ::
  "zod_lib \<Rightarrow> process_env option \<Rightarrow> process_env option \<Rightarrow> process_env \<Rightarrow>
   config_error + config" where
  "config_module lib envLocal envFile penv =
     load_config lib penv
       (if isDevelopment penv then dotenv_config envFile (dotenv_config envLocal penv) else penv)"

subsection \<open>The SMS rules\<close>

text \<open>
  The SMS rules as the specification states them: both credentials are present,
  exactly one of the messaging-service identifier and the sender number is supplied,
  and a supplied sender number is valid E.164. A variable is present when it is set
  and not empty.
\<close>

definition sms_rules_hold :: "process_env \<Rightarrow> bool" where
  "sms_rules_hold env =
     (truthy (env ''TWILIO_ACCOUNT_SID'') \<and> truthy (env ''TWILIO_AUTH_TOKEN'') \<and>
      (truthy (env ''TWILIO_MESSAGING_SERVICE_SID'') \<noteq> truthy (env ''TWILIO_FROM_NUMBER'')) \<and>
      (case env ''TWILIO_FROM_NUMBER'' of None \<Rightarrow> True | Some n \<Rightarrow> n = [] \<or> e164 n))"

text \<open>
  Library validators and an environment for closed examples: \<open>demo_lib\<close> accepts
  every string that starts with \<open>http://\<close> or \<open>https://\<close> as a URL and every
  string with an \<open>@\<close> as an e-mail address, and reads strings of decimal digits as
  numbers. \<open>demo_config_env\<close> is a production environment in which every field is
  valid and no feature flag is set.
\<close>

definition demo_lib :: zod_lib where
  "demo_lib =
     \<lparr> is_url = (\<lambda>s. take 7 s = js ''http://'' \<or> take 8 s = js ''https://''),
       is_email = (\<lambda>s. 0x40 \<in> set s),
       to_number = (\<lambda>s. if s \<noteq> [] \<and> list_all is_digit s
                         then Finite (of_nat (foldl (\<lambda>n c. 10 * n + (unat c - 0x30)) 0 s))
                         else NaN) \<rparr>"

definition demo_config_env :: process_env where
  "demo_config_env =
     map_of
       [(''NODE_ENV'', js ''production''),
        (''DATABASE_URL'', js ''postgres://db.internal/app''),
        (''TOKEN_ENCRYPTION_KEY'', demo_key),
        (''TOKEN_ENCRYPTION_KEY_ID'', js ''k1''),
        (''GOOGLE_PROJECT_ID'', js ''proj''),
        (''GOOGLE_OAUTH_CLIENT_ID'', js ''client''),
        (''GOOGLE_OAUTH_CLIENT_SECRET'', js ''secret''),
        (''GOOGLE_OAUTH_REDIRECT_URI'', js ''https://app.example.com/oauth/callback''),
        (''PUBSUB_TOPIC'', js ''gmail''),
        (''PUBSUB_SUBSCRIPTION'', js ''gmail-push''),
        (''PUBSUB_SERVICE_ACCOUNT_EMAIL'', js ''push@proj.iam.gserviceaccount.com'')]"

lemma object_issues_checked:
  "object_issues lib env =
     map (Pair ''PORT'') (coerce_int lib 1 (Some 65535) (env ''PORT'')) @
     map (Pair ''APP_BASE_URL'')
       (urlSchema lib (with_default (js ''http://localhost:4000'') (env ''APP_BASE_URL''))) @
     map (Pair ''LOG_LEVEL'') (enum_default log_levels (env ''LOG_LEVEL'')) @
     map (Pair ''DATABASE_URL'') (string_min1 (env ''DATABASE_URL'')) @
     map (Pair ''TOKEN_ENCRYPTION_KEY'') (base64Key32 (env ''TOKEN_ENCRYPTION_KEY'')) @
     map (Pair ''TOKEN_ENCRYPTION_KEY_ID'') (string_min1 (env ''TOKEN_ENCRYPTION_KEY_ID'')) @
     map (Pair ''RETENTION_DAYS'') (coerce_int lib 1 None (env ''RETENTION_DAYS'')) @
     map (Pair ''GOOGLE_PROJECT_ID'') (string_min1 (env ''GOOGLE_PROJECT_ID'')) @
     map (Pair ''GOOGLE_OAUTH_CLIENT_ID'') (string_min1 (env ''GOOGLE_OAUTH_CLIENT_ID'')) @
     map (Pair ''GOOGLE_OAUTH_CLIENT_SECRET'') (string_min1 (env ''GOOGLE_OAUTH_CLIENT_SECRET'')) @
     map (Pair ''GOOGLE_OAUTH_REDIRECT_URI'') (urlSchema lib (env ''GOOGLE_OAUTH_REDIRECT_URI'')) @
     map (Pair ''PUBSUB_TOPIC'') (string_min1 (env ''PUBSUB_TOPIC'')) @
     map (Pair ''PUBSUB_SUBSCRIPTION'') (string_min1 (env ''PUBSUB_SUBSCRIPTION'')) @
     map (Pair ''PUBSUB_SERVICE_ACCOUNT_EMAIL'')
       (email_schema lib (env ''PUBSUB_SERVICE_ACCOUNT_EMAIL''))"
  by (simp add: object_issues_def schema_fields_def field_issues_def any_string_def)

lemma demo_config_env_lookup:
  "demo_config_env ''PORT'' = None"
  "demo_config_env ''APP_BASE_URL'' = None"
  "demo_config_env ''LOG_LEVEL'' = None"
  "demo_config_env ''DATABASE_URL'' = Some (js ''postgres://db.internal/app'')"
  "demo_config_env ''TOKEN_ENCRYPTION_KEY'' = Some demo_key"
  "demo_config_env ''TOKEN_ENCRYPTION_KEY_ID'' = Some (js ''k1'')"
  "demo_config_env ''RETENTION_DAYS'' = None"
  "demo_config_env ''GOOGLE_PROJECT_ID'' = Some (js ''proj'')"
  "demo_config_env ''GOOGLE_OAUTH_CLIENT_ID'' = Some (js ''client'')"
  "demo_config_env ''GOOGLE_OAUTH_CLIENT_SECRET'' = Some (js ''secret'')"
  "demo_config_env ''GOOGLE_OAUTH_REDIRECT_URI'' = Some (js ''https://app.example.com/oauth/callback'')"
  "demo_config_env ''PUBSUB_TOPIC'' = Some (js ''gmail'')"
  "demo_config_env ''PUBSUB_SUBSCRIPTION'' = Some (js ''gmail-push'')"
  "demo_config_env ''PUBSUB_SERVICE_ACCOUNT_EMAIL'' = Some (js ''push@proj.iam.gserviceaccount.com'')"
  by (simp_all add: demo_config_env_def)

lemma demo_field_checks:
  "urlSchema demo_lib (with_default (js ''http://localhost:4000'') None) = []"
  "urlSchema demo_lib (Some (js ''https://app.example.com/oauth/callback'')) = []"
  "email_schema demo_lib (Some (js ''push@proj.iam.gserviceaccount.com'')) = []"
  "coerce_int demo_lib lo hi None = []"
  "enum_default log_levels None = []"
  "string_min1 (Some (js ''k1'')) = []" "string_min1 (Some (js ''proj'')) = []"
  "string_min1 (Some (js ''client'')) = []" "string_min1 (Some (js ''secret'')) = []"
  "string_min1 (Some (js ''gmail'')) = []" "string_min1 (Some (js ''gmail-push'')) = []"
  "string_min1 (Some (js ''postgres://db.internal/app'')) = []"
  "string_min1 None = [Required]"
  by (simp_all add: urlSchema_def with_default_def email_schema_def coerce_int_def
        enum_default_def string_min1_def demo_lib_def js_def)

lemma demo_key_checks: "base64Key32 (Some demo_key) = []"
  by (simp add: base64Key32_def demo_key_bytes) (simp add: demo_key_def js_def)

lemma demo_object_issues: "object_issues demo_lib demo_config_env = []"
  by (simp add: object_issues_checked demo_config_env_lookup demo_field_checks demo_key_checks)

definition checked_fields :: "string list" where
  "checked_fields =
     [''PORT'', ''APP_BASE_URL'', ''LOG_LEVEL'', ''DATABASE_URL'', ''TOKEN_ENCRYPTION_KEY'',
      ''TOKEN_ENCRYPTION_KEY_ID'', ''RETENTION_DAYS'', ''GOOGLE_PROJECT_ID'',
      ''GOOGLE_OAUTH_CLIENT_ID'', ''GOOGLE_OAUTH_CLIENT_SECRET'', ''GOOGLE_OAUTH_REDIRECT_URI'',
      ''PUBSUB_TOPIC'', ''PUBSUB_SUBSCRIPTION'', ''PUBSUB_SERVICE_ACCOUNT_EMAIL'']"

lemma object_issues_agree:
  "list_all (\<lambda>n. env n = env' n) checked_fields \<Longrightarrow>
   object_issues lib env = object_issues lib env'"
  by (simp add: checked_fields_def object_issues_checked)

lemma demo_mode:
  "isProduction demo_config_env" "\<not> isDevelopment demo_config_env"
  by (simp_all add: isProduction_def isDevelopment_def demo_config_env_def)

lemma load_config_invalid:
  "object_issues lib env \<noteq> [] \<Longrightarrow>
   load_config lib penv env = Inl (ValidationFailed (object_issues lib env))"
  by (simp add: load_config_def)

lemma load_config_valid:
  "object_issues lib env = [] \<Longrightarrow> load_config lib penv env = transform lib penv env"
  by (simp add: load_config_def)

lemma transform_isl:
  "check_sms (isProduction penv) (compute_features (isDevelopment penv) env) env = Some e \<Longrightarrow>
   isl (transform lib penv env)"
  by (simp add: transform_def Let_def split: option.splits)

lemma check_sms_cases:
  assumes "sms f"
  shows "check_sms production f env =
           (if \<not> (truthy (env ''TWILIO_ACCOUNT_SID'') \<and> truthy (env ''TWILIO_AUTH_TOKEN''))
            then Some TwilioCredentialsRequired
            else if truthy (env ''TWILIO_MESSAGING_SERVICE_SID'') = truthy (env ''TWILIO_FROM_NUMBER'')
            then Some ExactlyOneSenderRequired
            else if \<not> sms_rules_hold env then Some (InvalidE164 ''TWILIO_FROM_NUMBER'')
            else check_default_sms_to production env)"
  using assms
  by (auto simp add: check_sms_def sms_rules_hold_def Let_def truthy_def or_default_def
        split: option.splits)

text \<open>
  Claim C6. With the SMS flag enabled: validation fails unless both the account
  identifier and the authentication token are present, and fails when both or
  neither of the messaging-service identifier and the sender number are supplied.
  When no field has an issue and the classifier rule holds, one of the three errors of
  these rules is raised exactly when the rules do not hold; when the rule on the
  default recipient and the push rule hold as well, validation succeeds exactly when
  the SMS rules hold.
\<close>

theorem sms_rules:
  assumes "sms (compute_features (isDevelopment penv) env)"
  shows "(\<not> (truthy (env ''TWILIO_ACCOUNT_SID'') \<and> truthy (env ''TWILIO_AUTH_TOKEN'')) \<longrightarrow>
            isl (load_config lib penv env)) \<and>
         (truthy (env ''TWILIO_MESSAGING_SERVICE_SID'') = truthy (env ''TWILIO_FROM_NUMBER'') \<longrightarrow>
            isl (load_config lib penv env)) \<and>
         (object_issues lib env = [] \<and>
          check_classifier (compute_features (isDevelopment penv) env) env = None \<longrightarrow>
            (load_config lib penv env \<in>
               {Inl TwilioCredentialsRequired, Inl ExactlyOneSenderRequired,
                Inl (InvalidE164 ''TWILIO_FROM_NUMBER'')}
             \<longleftrightarrow> \<not> sms_rules_hold env)) \<and>
         (object_issues lib env = [] \<and>
          check_classifier (compute_features (isDevelopment penv) env) env = None \<and>
          check_default_sms_to (isProduction penv) env = None \<and>
          check_push (isDevelopment penv) (compute_features (isDevelopment penv) env) env = None \<longrightarrow>
            (isl (load_config lib penv env) \<longleftrightarrow> \<not> sms_rules_hold env))"
proof -
  let ?f = "compute_features (isDevelopment penv) env"
  note c = check_sms_cases [OF assms, of "isProduction penv" env]
  have fail: "isl (load_config lib penv env)" if "check_sms (isProduction penv) ?f env = Some e" for e
  proof (cases "object_issues lib env = []")
    case True
    then show ?thesis
      using transform_isl [OF that] by (simp add: load_config_valid)
  next
    case False
    then show ?thesis by (simp add: load_config_invalid)
  qed
  have 1: "isl (load_config lib penv env)"
    if "\<not> (truthy (env ''TWILIO_ACCOUNT_SID'') \<and> truthy (env ''TWILIO_AUTH_TOKEN''))"
    using that c by (intro fail [of TwilioCredentialsRequired]) simp
  have 2: "isl (load_config lib penv env)"
    if "truthy (env ''TWILIO_MESSAGING_SERVICE_SID'') = truthy (env ''TWILIO_FROM_NUMBER'')"
    using that c
    by (cases "truthy (env ''TWILIO_ACCOUNT_SID'') \<and> truthy (env ''TWILIO_AUTH_TOKEN'')")
       (auto intro: fail)
  have h: "sms_rules_hold env \<Longrightarrow>
             truthy (env ''TWILIO_ACCOUNT_SID'') \<and> truthy (env ''TWILIO_AUTH_TOKEN'') \<and>
             truthy (env ''TWILIO_MESSAGING_SERVICE_SID'') \<noteq> truthy (env ''TWILIO_FROM_NUMBER'')"
    by (simp add: sms_rules_hold_def)
  have d: "check_default_sms_to (isProduction penv) env
             \<notin> {Some TwilioCredentialsRequired, Some ExactlyOneSenderRequired,
                 Some (InvalidE164 ''TWILIO_FROM_NUMBER'')}"
    by (simp add: check_default_sms_to_def Let_def)
  have 3: "load_config lib penv env \<in>
             {Inl TwilioCredentialsRequired, Inl ExactlyOneSenderRequired,
              Inl (InvalidE164 ''TWILIO_FROM_NUMBER'')}
           \<longleftrightarrow> \<not> sms_rules_hold env"
    if "object_issues lib env = [] \<and> check_classifier ?f env = None"
  proof (cases "sms_rules_hold env")
    case True
    from h [OF True] True c d that show ?thesis
      by (auto simp add: load_config_valid transform_def check_push_def split: option.splits)
  next
    case False
    with c that show ?thesis
      by (auto simp add: load_config_valid transform_def split: option.splits)
  qed
  have 4: "isl (load_config lib penv env) \<longleftrightarrow> \<not> sms_rules_hold env"
    if "object_issues lib env = [] \<and> check_classifier ?f env = None \<and>
        check_default_sms_to (isProduction penv) env = None \<and>
        check_push (isDevelopment penv) ?f env = None"
  proof (cases "sms_rules_hold env")
    case True
    from h [OF True] True c that show ?thesis
      by (simp add: load_config_valid transform_def)
  next
    case False
    with c that show ?thesis
      by (auto simp add: load_config_valid transform_def split: option.splits)
  qed
  from 1 2 3 4 show ?thesis by blast
qed

definition sms_env :: process_env where
  "sms_env =
     demo_config_env
       (''FEATURE_ENABLE_SMS'' := Some (js ''true''),
        ''TWILIO_ACCOUNT_SID'' := Some (js ''AC0123''),
        ''TWILIO_AUTH_TOKEN'' := Some (js ''token''))"

lemma boolFromEnv_true: "boolFromEnv (Some (js ''true'')) b"
  by (simp add: boolFromEnv_def toLowerCase_def lower_unit_def js_def)

lemma production_sms_facts:
  assumes "E ''NODE_ENV'' = Some (js ''production'')" "E ''FEATURE_ENABLE_SMS'' = Some (js ''true'')"
    and "E ''FEATURE_ENABLE_CLASSIFIER'' = None" "E ''FEATURE_ENABLE_PUSH'' = None"
    and "E ''TWILIO_DEFAULT_SMS_TO'' = None"
  shows "sms (compute_features (isDevelopment E) E)"
    and "check_classifier (compute_features (isDevelopment E) E) E = None"
    and "check_push (isDevelopment E) (compute_features (isDevelopment E) E) E = None"
    and "check_default_sms_to (isProduction E) E = None"
  using assms
  by (simp_all add: compute_features_def check_classifier_def check_push_def
        check_default_sms_to_def isDevelopment_def isProduction_def boolFromEnv_true
        boolFromEnv_None truthy_def)

lemma sms_env_lookup:
  "sms_env ''NODE_ENV'' = Some (js ''production'')"
  "sms_env ''FEATURE_ENABLE_SMS'' = Some (js ''true'')"
  "sms_env ''FEATURE_ENABLE_CLASSIFIER'' = None"
  "sms_env ''FEATURE_ENABLE_PUSH'' = None"
  "sms_env ''TWILIO_DEFAULT_SMS_TO'' = None"
  "sms_env ''TWILIO_ACCOUNT_SID'' = Some (js ''AC0123'')"
  "sms_env ''TWILIO_AUTH_TOKEN'' = Some (js ''token'')"
  "sms_env ''TWILIO_MESSAGING_SERVICE_SID'' = None"
  "sms_env ''TWILIO_FROM_NUMBER'' = None"
  by (simp_all add: sms_env_def demo_config_env_def)

lemma sms_env_issues: "list_all (\<lambda>k. sms_env k = demo_config_env k) checked_fields"
  by (simp add: checked_fields_def sms_env_def)


lemma twilio_update_facts:
  assumes "E ''NODE_ENV'' = Some (js ''production'')" "E ''FEATURE_ENABLE_SMS'' = Some (js ''true'')"
    and "E ''FEATURE_ENABLE_CLASSIFIER'' = None" "E ''FEATURE_ENABLE_PUSH'' = None"
    and "E ''TWILIO_DEFAULT_SMS_TO'' = None"
    and "list_all (\<lambda>k. E k = demo_config_env k) checked_fields"
  shows "sms (compute_features (isDevelopment E) E) \<and>
         object_issues demo_lib E = [] \<and>
         check_classifier (compute_features (isDevelopment E) E) E = None \<and>
         check_default_sms_to (isProduction E) E = None \<and>
         check_push (isDevelopment E) (compute_features (isDevelopment E) E) E = None"
  using production_sms_facts [OF assms(1-5)] object_issues_agree [OF assms(6), of demo_lib]
  by (simp add: demo_object_issues)

lemma e164_examples: "e164 (js ''+15551234567'')" "\<not> e164 (js ''555-1234'')"
  by (simp_all add: e164_def js_def is_digit_def)

theorem sms_rules_witness:
  "sms (compute_features (isDevelopment sms_env) sms_env) \<and>
   isl (load_config demo_lib sms_env sms_env) \<and>
   isl (load_config demo_lib (sms_env(''TWILIO_AUTH_TOKEN'' := None))
          (sms_env(''TWILIO_AUTH_TOKEN'' := None))) \<and>
   \<not> isl (load_config demo_lib (sms_env(''TWILIO_FROM_NUMBER'' := Some (js ''+15551234567'')))
          (sms_env(''TWILIO_FROM_NUMBER'' := Some (js ''+15551234567'')))) \<and>
   \<not> isl (load_config demo_lib (sms_env(''TWILIO_MESSAGING_SERVICE_SID'' := Some (js ''MG01'')))
          (sms_env(''TWILIO_MESSAGING_SERVICE_SID'' := Some (js ''MG01'')))) \<and>
   isl (load_config demo_lib (sms_env(''TWILIO_FROM_NUMBER'' := Some (js ''555-1234'')))
          (sms_env(''TWILIO_FROM_NUMBER'' := Some (js ''555-1234''))))"
proof -
  have t: "list_all (\<lambda>k. (sms_env(''TWILIO_AUTH_TOKEN'' := v)) k = demo_config_env k) checked_fields"
    and f: "list_all (\<lambda>k. (sms_env(''TWILIO_FROM_NUMBER'' := v)) k = demo_config_env k) checked_fields"
    and m: "list_all (\<lambda>k. (sms_env(''TWILIO_MESSAGING_SERVICE_SID'' := v)) k = demo_config_env k)
              checked_fields" for v
    using sms_env_issues by (simp_all add: checked_fields_def)
  have at: "sms (compute_features (isDevelopment E) E) \<and> object_issues demo_lib E = [] \<and>
         check_classifier (compute_features (isDevelopment E) E) E = None \<and>
         check_default_sms_to (isProduction E) E = None \<and>
         check_push (isDevelopment E) (compute_features (isDevelopment E) E) E = None"
    if "E = sms_env(''TWILIO_AUTH_TOKEN'' := v)" for E v
    unfolding that by (rule twilio_update_facts [OF _ _ _ _ _ t]) (simp_all add: sms_env_lookup)
  have af: "sms (compute_features (isDevelopment E) E) \<and> object_issues demo_lib E = [] \<and>
         check_classifier (compute_features (isDevelopment E) E) E = None \<and>
         check_default_sms_to (isProduction E) E = None \<and>
         check_push (isDevelopment E) (compute_features (isDevelopment E) E) E = None"
    if "E = sms_env(''TWILIO_FROM_NUMBER'' := v)" for E v
    unfolding that by (rule twilio_update_facts [OF _ _ _ _ _ f]) (simp_all add: sms_env_lookup)
  have am: "sms (compute_features (isDevelopment E) E) \<and> object_issues demo_lib E = [] \<and>
         check_classifier (compute_features (isDevelopment E) E) E = None \<and>
         check_default_sms_to (isProduction E) E = None \<and>
         check_push (isDevelopment E) (compute_features (isDevelopment E) E) E = None"
    if "E = sms_env(''TWILIO_MESSAGING_SERVICE_SID'' := v)" for E v
    unfolding that by (rule twilio_update_facts [OF _ _ _ _ _ m]) (simp_all add: sms_env_lookup)
  have b: "sms_env(''TWILIO_FROM_NUMBER'' := None) = sms_env"
    using sms_env_lookup(9) by (simp add: fun_upd_idem)
  have 0: "sms (compute_features (isDevelopment sms_env) sms_env)"
    using af [of "sms_env(''TWILIO_FROM_NUMBER'' := None)" None] unfolding b by simp
  have 1: "isl (load_config demo_lib sms_env sms_env)"
    using sms_rules [of "sms_env(''TWILIO_FROM_NUMBER'' := None)"
        "sms_env(''TWILIO_FROM_NUMBER'' := None)" demo_lib]
      af [of "sms_env(''TWILIO_FROM_NUMBER'' := None)" None]
    unfolding b by (simp add: sms_env_lookup truthy_def)
  have 2: "isl (load_config demo_lib (sms_env(''TWILIO_AUTH_TOKEN'' := None))
          (sms_env(''TWILIO_AUTH_TOKEN'' := None)))"
    using sms_rules [of "sms_env(''TWILIO_AUTH_TOKEN'' := None)"
        "sms_env(''TWILIO_AUTH_TOKEN'' := None)" demo_lib]
      at [of "sms_env(''TWILIO_AUTH_TOKEN'' := None)" None]
    by (simp add: truthy_def)
  have 3: "\<not> isl (load_config demo_lib (sms_env(''TWILIO_FROM_NUMBER'' := Some (js ''+15551234567'')))
          (sms_env(''TWILIO_FROM_NUMBER'' := Some (js ''+15551234567''))))"
    using sms_rules [of "sms_env(''TWILIO_FROM_NUMBER'' := Some (js ''+15551234567''))"
        "sms_env(''TWILIO_FROM_NUMBER'' := Some (js ''+15551234567''))" demo_lib]
      af [of "sms_env(''TWILIO_FROM_NUMBER'' := Some (js ''+15551234567''))" "Some (js ''+15551234567'')"]
    by (simp add: sms_rules_hold_def sms_env_lookup e164_examples truthy_def) (simp add: js_def)
  have 4: "\<not> isl (load_config demo_lib (sms_env(''TWILIO_MESSAGING_SERVICE_SID'' := Some (js ''MG01'')))
          (sms_env(''TWILIO_MESSAGING_SERVICE_SID'' := Some (js ''MG01''))))"
    using sms_rules [of "sms_env(''TWILIO_MESSAGING_SERVICE_SID'' := Some (js ''MG01''))"
        "sms_env(''TWILIO_MESSAGING_SERVICE_SID'' := Some (js ''MG01''))" demo_lib]
      am [of "sms_env(''TWILIO_MESSAGING_SERVICE_SID'' := Some (js ''MG01''))" "Some (js ''MG01'')"]
    by (simp add: sms_rules_hold_def sms_env_lookup truthy_def) (simp add: js_def)
  have 5: "isl (load_config demo_lib (sms_env(''TWILIO_FROM_NUMBER'' := Some (js ''555-1234'')))
          (sms_env(''TWILIO_FROM_NUMBER'' := Some (js ''555-1234''))))"
    using sms_rules [of "sms_env(''TWILIO_FROM_NUMBER'' := Some (js ''555-1234''))"
        "sms_env(''TWILIO_FROM_NUMBER'' := Some (js ''555-1234''))" demo_lib]
      af [of "sms_env(''TWILIO_FROM_NUMBER'' := Some (js ''555-1234''))" "Some (js ''555-1234'')"]
    by (simp add: sms_rules_hold_def sms_env_lookup e164_examples truthy_def)
  from 0 1 2 3 4 5 show ?thesis
    by simp
qed

subsection \<open>What a failed validation reports\<close>

text \<open>
  Claim C4, as amended. When at least one field rule fails, validation fails with one
  error that lists an issue for every failed rule of every field. The cross-field
  rules (classifier key, SMS rules, push credentials) are checked only when no field
  rule fails, in the order of the source, and the first one violated is reported
  alone.
\<close>

theorem field_violations_aggregated:
  "(object_issues lib env \<noteq> [] \<longrightarrow>
      load_config lib penv env = Inl (ValidationFailed (object_issues lib env)) \<and>
      (\<forall>f \<in> set (schema_fields lib). \<forall>k \<in> set (snd f (env (fst f))).
          (fst f, k) \<in> set (object_issues lib env))) \<and>
   (object_issues lib env = [] \<longrightarrow>
      load_config lib penv env =
        (case check_classifier (compute_features (isDevelopment penv) env) env of
           Some e \<Rightarrow> Inl e
         | None \<Rightarrow>
             (case check_sms (isProduction penv) (compute_features (isDevelopment penv) env) env of
                Some e \<Rightarrow> Inl e
              | None \<Rightarrow>
                  (case check_push (isDevelopment penv)
                          (compute_features (isDevelopment penv) env) env of
                     Some e \<Rightarrow> Inl e
                   | None \<Rightarrow> Inr (build_config lib penv env)))))"
proof (intro conjI impI ballI)
  assume "object_issues lib env \<noteq> []"
  then show "load_config lib penv env = Inl (ValidationFailed (object_issues lib env))"
    by (rule load_config_invalid)
next
  fix f k
  assume "f \<in> set (schema_fields lib)" "k \<in> set (snd f (env (fst f)))"
  then show "(fst f, k) \<in> set (object_issues lib env)"
    by (auto simp add: object_issues_def field_issues_def)
next
  assume "object_issues lib env = []"
  then show "load_config lib penv env =
        (case check_classifier (compute_features (isDevelopment penv) env) env of
           Some e \<Rightarrow> Inl e
         | None \<Rightarrow>
             (case check_sms (isProduction penv) (compute_features (isDevelopment penv) env) env of
                Some e \<Rightarrow> Inl e
              | None \<Rightarrow>
                  (case check_push (isDevelopment penv)
                          (compute_features (isDevelopment penv) env) env of
                     Some e \<Rightarrow> Inl e
                   | None \<Rightarrow> Inr (build_config lib penv env))))"
    by (simp add: load_config_valid transform_def Let_def)
qed

definition broken_env :: process_env where
  "broken_env =
     demo_config_env
       (''PORT'' := Some (js ''0''),
        ''DATABASE_URL'' := None,
        ''TOKEN_ENCRYPTION_KEY'' := Some [],
        ''FEATURE_ENABLE_CLASSIFIER'' := Some (js ''true''))"

lemma broken_env_lookup:
  "broken_env ''PORT'' = Some (js ''0'')"
  "broken_env ''APP_BASE_URL'' = None"
  "broken_env ''LOG_LEVEL'' = None"
  "broken_env ''DATABASE_URL'' = None"
  "broken_env ''TOKEN_ENCRYPTION_KEY'' = Some []"
  "broken_env ''TOKEN_ENCRYPTION_KEY_ID'' = Some (js ''k1'')"
  "broken_env ''RETENTION_DAYS'' = None"
  "broken_env ''GOOGLE_PROJECT_ID'' = Some (js ''proj'')"
  "broken_env ''GOOGLE_OAUTH_CLIENT_ID'' = Some (js ''client'')"
  "broken_env ''GOOGLE_OAUTH_CLIENT_SECRET'' = Some (js ''secret'')"
  "broken_env ''GOOGLE_OAUTH_REDIRECT_URI'' = Some (js ''https://app.example.com/oauth/callback'')"
  "broken_env ''PUBSUB_TOPIC'' = Some (js ''gmail'')"
  "broken_env ''PUBSUB_SUBSCRIPTION'' = Some (js ''gmail-push'')"
  "broken_env ''PUBSUB_SERVICE_ACCOUNT_EMAIL'' = Some (js ''push@proj.iam.gserviceaccount.com'')"
  by (simp_all add: broken_env_def demo_config_env_lookup)

lemma broken_checks:
  "coerce_int demo_lib 1 (Some 65535) (Some (js ''0'')) = [TooSmall]"
  "base64Key32 (Some []) = [TooSmall, NotBase64Key32]"
  by (simp_all add: coerce_int_def demo_lib_def js_def is_digit_def number_is_int_def
        number_less_def number_greater_def base64Key32_def base64_decode_def b64_sextets_def
        List.map_filter_simps)

lemma broken_env_issues:
  "object_issues demo_lib broken_env =
     [(''PORT'', TooSmall), (''DATABASE_URL'', Required), (''TOKEN_ENCRYPTION_KEY'', TooSmall),
      (''TOKEN_ENCRYPTION_KEY'', NotBase64Key32)]"
  by (simp add: object_issues_checked broken_env_lookup demo_field_checks broken_checks)

theorem field_violations_aggregated_witness:
  "load_config demo_lib broken_env broken_env =
     Inl (ValidationFailed
       [(''PORT'', TooSmall), (''DATABASE_URL'', Required), (''TOKEN_ENCRYPTION_KEY'', TooSmall),
        (''TOKEN_ENCRYPTION_KEY'', NotBase64Key32)]) \<and>
   load_config demo_lib demo_config_env demo_config_env
     = Inr (build_config demo_lib demo_config_env demo_config_env)"
proof -
  have f: "compute_features (isDevelopment demo_config_env) demo_config_env
           = \<lparr> sms = False, tasks = False, push = False, classifier = False \<rparr>"
    by (simp add: compute_features_def demo_mode)
       (simp add: demo_config_env_def boolFromEnv_None)
  show ?thesis
    using field_violations_aggregated [of demo_lib broken_env broken_env]
      field_violations_aggregated [of demo_lib demo_config_env demo_config_env]
    by (simp add: broken_env_issues demo_object_issues f check_classifier_def check_sms_def
          check_push_def)
qed

text \<open>
  The claim as stated fails. With the classifier and the SMS flag enabled and neither
  the classifier key nor the SMS credentials set, two cross-field rules are violated
  and only the classifier error is raised; with a field rule violated as well, only
  the field issue is reported.
\<close>

definition cross_env :: process_env where
  "cross_env =
     demo_config_env
       (''FEATURE_ENABLE_CLASSIFIER'' := Some (js ''true''),
        ''FEATURE_ENABLE_SMS'' := Some (js ''true''))"

theorem first_violation_only_counterexample:
  "object_issues demo_lib cross_env = [] \<and>
   check_classifier (compute_features (isDevelopment cross_env) cross_env) cross_env
     = Some ClassifierKeyRequired \<and>
   check_sms (isProduction cross_env) (compute_features (isDevelopment cross_env) cross_env) cross_env
     = Some TwilioCredentialsRequired \<and>
   load_config demo_lib cross_env cross_env = Inl ClassifierKeyRequired \<and>
   load_config demo_lib (cross_env(''DATABASE_URL'' := None)) (cross_env(''DATABASE_URL'' := None))
     = Inl (ValidationFailed [(''DATABASE_URL'', Required)])"
proof -
  have a: "list_all (\<lambda>k. cross_env k = demo_config_env k) checked_fields"
    by (simp add: checked_fields_def cross_env_def)
  have i: "object_issues demo_lib cross_env = []"
    using object_issues_agree [OF a, of demo_lib] by (simp add: demo_object_issues)
  have l: "cross_env ''FEATURE_ENABLE_CLASSIFIER'' = Some (js ''true'')"
    "cross_env ''FEATURE_ENABLE_SMS'' = Some (js ''true'')"
    "cross_env ''FEATURE_ENABLE_TASKS'' = None" "cross_env ''FEATURE_ENABLE_PUSH'' = None"
    "cross_env ''OPENAI_API_KEY'' = None" "cross_env ''TWILIO_ACCOUNT_SID'' = None"
    by (simp_all add: cross_env_def demo_config_env_def)
  have t: "boolFromEnv (Some (js ''true'')) b" for b
    by (simp add: boolFromEnv_def toLowerCase_def lower_unit_def js_def)
  have f: "compute_features (isDevelopment cross_env) cross_env
           = \<lparr> sms = True, tasks = False, push = False, classifier = True \<rparr>"
    by (simp add: compute_features_def l t boolFromEnv_None)
       (simp add: isDevelopment_def isProduction_def cross_env_def demo_config_env_def)
  have c: "check_classifier (compute_features (isDevelopment cross_env) cross_env) cross_env
     = Some ClassifierKeyRequired"
    by (simp add: f check_classifier_def l truthy_def)
  have s: "check_sms (isProduction cross_env) (compute_features (isDevelopment cross_env) cross_env)
      cross_env = Some TwilioCredentialsRequired"
    by (simp add: f check_sms_def l truthy_def)
  have d: "object_issues demo_lib (cross_env(''DATABASE_URL'' := None))
           = [(''DATABASE_URL'', Required)]"
    by (simp add: object_issues_checked demo_field_checks demo_key_checks)
       (simp add: cross_env_def demo_config_env_lookup demo_field_checks demo_key_checks)
  show ?thesis
    using i c s d by (simp add: load_config_def transform_def)
qed

end
